theory Spec2Isabelle
  imports Complex_Main "HOL-Library.Word" "HOL-Library.Multiset"
begin

unbundle bit_operations_syntax

section \<open>The GL queue runner (ext/native/thin3d/GLQueueRunner.cpp)\<close>

text \<open>
  The queue runner replays recorded step batches against the OpenGL driver. The model
  threads one state through every function of the file: the members of the
  \<open>GLQueueRunner\<close> object, the resource records that the steps point to, the ordered
  trace of every call made to the driver (and of the other effects: \<open>delete[]\<close>, log
  lines), and the number of object names the driver has handed out. A function that can
  stop (a null or dangling pointer, an index outside an array, \<open>Crash()\<close>) returns
  \<open>Inl\<close> of the reason.

  The model is of a release build, where \<open>CHECK_GL_ERROR_IF_DEBUG\<close>,
  \<open>_dbg_assert_msg_\<close> and \<open>assert\<close> expand to nothing. The preprocessor symbols and the
  capability flags that select a code path are fields of \<open>Platform\<close>.
\<close>

subsection \<open>Machine types\<close>

type_synonym GLuint = "32 word"
type_synonym GLint = "32 word"      \<comment> \<open>read as two's complement with \<open>sint\<close>\<close>
type_synonym GLenum = "32 word"
type_synonym GLsizei = "32 word"
type_synonym intptr = "64 word"
type_synonym u8 = "8 word"
type_synonym u32 = "32 word"

text \<open>
  An \<open>int\<close> is a 32-bit word: arithmetic wraps around (where C++ leaves signed overflow
  undefined), and comparisons that the code makes on signed values are signed.

  A \<open>float\<close> on which the code computes is modelled by a rational number: the arithmetic
  of the model is exact, and agrees with single precision whenever operands and results
  are integers below \<open>2 ^ 24\<close> in magnitude. A float array that the code only hands on
  (uniform payloads, which are read as floats or as integers through a pointer cast) is
  kept as raw 32-bit cells.
\<close>

type_synonym float = rat
type_synonym raw32 = "32 word"
type_synonym raw32x4 = "raw32 \<times> raw32 \<times> raw32 \<times> raw32"   \<comment> \<open>\<open>float v[4]\<close>\<close>

definition cells :: "raw32x4 \<Rightarrow> raw32 list" where
  "cells v = (case v of (v0, v1, v2, v3) \<Rightarrow> [v0, v1, v2, v3])"

text \<open>A pointer is an address or \<open>nullptr\<close> (\<open>None\<close>).\<close>

type_synonym addr = nat
type_synonym ptr = "addr option"

definition float_of_int32 :: "32 word \<Rightarrow> float" where
  "float_of_int32 i = of_int (sint i)"

text \<open>
  The cast \<open>(GLint)f\<close> truncates towards zero; the model wraps a value outside the range
  of \<open>GLint\<close>, where C++ leaves the cast undefined.
\<close>

definition GLint_of_float :: "float \<Rightarrow> GLint" where
  "GLint_of_float f = word_of_int (if 0 \<le> f then \<lfloor>f\<rfloor> else \<lceil>f\<rceil>)"

subsection \<open>Constants of the OpenGL headers\<close>

definition GL_FALSE :: GLint where "GL_FALSE = 0"
definition GL_TRUE :: GLint where "GL_TRUE = 1"
definition GL_DEPTH_BUFFER_BIT :: "32 word" where "GL_DEPTH_BUFFER_BIT = 0x100"
definition GL_STENCIL_BUFFER_BIT :: "32 word" where "GL_STENCIL_BUFFER_BIT = 0x400"
definition GL_COLOR_BUFFER_BIT :: "32 word" where "GL_COLOR_BUFFER_BIT = 0x4000"
definition GL_CULL_FACE :: GLenum where "GL_CULL_FACE = 0x0B44"
definition GL_DEPTH_TEST :: GLenum where "GL_DEPTH_TEST = 0x0B71"
definition GL_STENCIL_TEST :: GLenum where "GL_STENCIL_TEST = 0x0B90"
definition GL_DITHER :: GLenum where "GL_DITHER = 0x0BD0"
definition GL_BLEND :: GLenum where "GL_BLEND = 0x0BE2"
definition GL_SCISSOR_TEST :: GLenum where "GL_SCISSOR_TEST = 0x0C11"
definition GL_TEXTURE_2D :: GLenum where "GL_TEXTURE_2D = 0x0DE1"
definition GL_NEAREST :: GLenum where "GL_NEAREST = 0x2600"
definition GL_LINEAR :: GLenum where "GL_LINEAR = 0x2601"
definition GL_TEXTURE_MAG_FILTER :: GLenum where "GL_TEXTURE_MAG_FILTER = 0x2800"
definition GL_TEXTURE_MIN_FILTER :: GLenum where "GL_TEXTURE_MIN_FILTER = 0x2801"
definition GL_TEXTURE_WRAP_S :: GLenum where "GL_TEXTURE_WRAP_S = 0x2802"
definition GL_TEXTURE_WRAP_T :: GLenum where "GL_TEXTURE_WRAP_T = 0x2803"
definition GL_CLAMP_TO_EDGE :: GLenum where "GL_CLAMP_TO_EDGE = 0x812F"
definition GL_TEXTURE0 :: GLenum where "GL_TEXTURE0 = 0x84C0"
definition GL_TEXTURE_MAX_ANISOTROPY_EXT :: GLenum where "GL_TEXTURE_MAX_ANISOTROPY_EXT = 0x84FE"
definition GL_MAX_TEXTURE_MAX_ANISOTROPY_EXT :: GLenum where
  "GL_MAX_TEXTURE_MAX_ANISOTROPY_EXT = 0x84FF"
definition GL_ARRAY_BUFFER :: GLenum where "GL_ARRAY_BUFFER = 0x8892"
definition GL_ELEMENT_ARRAY_BUFFER :: GLenum where "GL_ELEMENT_ARRAY_BUFFER = 0x8893"
definition GL_FRAGMENT_SHADER :: GLenum where "GL_FRAGMENT_SHADER = 0x8B30"
definition GL_COMPILE_STATUS :: GLenum where "GL_COMPILE_STATUS = 0x8B81"
definition GL_LINK_STATUS :: GLenum where "GL_LINK_STATUS = 0x8B82"
definition GL_INFO_LOG_LENGTH :: GLenum where "GL_INFO_LOG_LENGTH = 0x8B84"
definition GL_RENDERBUFFER :: GLenum where "GL_RENDERBUFFER = 0x8D41"

definition TEXCACHE_NAME_CACHE_SIZE :: nat where "TEXCACHE_NAME_CACHE_SIZE = 16"
definition MAX_INFO_LOG_SIZE :: nat where "MAX_INFO_LOG_SIZE = 2048"

subsection \<open>The trace: driver calls and other effects, in the order they happen\<close>

datatype val =
    W32 "32 word"
  | W64 "64 word"
  | Flt float
  | Ptr ptr
  | Str string
  | OptStr "string option"
  | Words "32 word list"

datatype call =
    GL string "val list"            \<comment> \<open>a call of the named driver function\<close>
  | DeleteArray ptr                 \<comment> \<open>\<open>delete[] p\<close>\<close>
  | DeleteStep nat                  \<comment> \<open>\<open>delete steps[i]\<close>\<close>
  | ELOG string "val list"
  | ILOG string "val list"
  | OutputDebugStringUTF8 string

definition W32_of_bool :: "bool \<Rightarrow> val" where
  "W32_of_bool b = W32 (if b then 1 else 0)"

text \<open>One constructor function per driver entry point that the file calls.\<close>

definition glGetFloatv :: "GLenum \<Rightarrow> call" where
  "glGetFloatv pname = GL ''glGetFloatv'' [W32 pname]"
definition glGenVertexArrays :: "GLsizei \<Rightarrow> call" where
  "glGenVertexArrays n = GL ''glGenVertexArrays'' [W32 n]"
definition glDeleteVertexArrays :: "GLsizei \<Rightarrow> GLuint list \<Rightarrow> call" where
  "glDeleteVertexArrays n arrays = GL ''glDeleteVertexArrays'' [W32 n, Words arrays]"
definition glGenTextures :: "GLsizei \<Rightarrow> call" where
  "glGenTextures n = GL ''glGenTextures'' [W32 n]"
definition glDeleteTextures :: "GLsizei \<Rightarrow> GLuint list \<Rightarrow> call" where
  "glDeleteTextures n names = GL ''glDeleteTextures'' [W32 n, Words names]"
definition glBindTexture :: "GLenum \<Rightarrow> GLuint \<Rightarrow> call" where
  "glBindTexture tgt tex = GL ''glBindTexture'' [W32 tgt, W32 tex]"
definition glGenBuffers :: "GLsizei \<Rightarrow> call" where
  "glGenBuffers n = GL ''glGenBuffers'' [W32 n]"
definition glBindBuffer :: "GLenum \<Rightarrow> GLuint \<Rightarrow> call" where
  "glBindBuffer tgt buf = GL ''glBindBuffer'' [W32 tgt, W32 buf]"
definition glBufferData :: "GLenum \<Rightarrow> 32 word \<Rightarrow> ptr \<Rightarrow> GLenum \<Rightarrow> call" where
  "glBufferData tgt sz dat usage = GL ''glBufferData'' [W32 tgt, W32 sz, Ptr dat, W32 usage]"
definition glBufferSubData :: "GLenum \<Rightarrow> 32 word \<Rightarrow> 32 word \<Rightarrow> ptr \<Rightarrow> call" where
  "glBufferSubData tgt off sz dat = GL ''glBufferSubData'' [W32 tgt, W32 off, W32 sz, Ptr dat]"
definition glCreateProgram :: call where
  "glCreateProgram = GL ''glCreateProgram'' []"
definition glAttachShader :: "GLuint \<Rightarrow> GLuint \<Rightarrow> call" where
  "glAttachShader prog sh = GL ''glAttachShader'' [W32 prog, W32 sh]"
definition glBindAttribLocation :: "GLuint \<Rightarrow> 32 word \<Rightarrow> string \<Rightarrow> call" where
  "glBindAttribLocation prog loc nm = GL ''glBindAttribLocation'' [W32 prog, W32 loc, Str nm]"
definition glBindFragDataLocationIndexed :: "GLuint \<Rightarrow> GLuint \<Rightarrow> GLuint \<Rightarrow> string \<Rightarrow> call" where
  "glBindFragDataLocationIndexed prog cn ix nm =
     GL ''glBindFragDataLocationIndexed'' [W32 prog, W32 cn, W32 ix, Str nm]"
definition glBindFragDataLocation :: "GLuint \<Rightarrow> GLuint \<Rightarrow> string \<Rightarrow> call" where
  "glBindFragDataLocation prog cn nm = GL ''glBindFragDataLocation'' [W32 prog, W32 cn, Str nm]"
definition glBindFragDataLocationIndexedEXT :: "GLuint \<Rightarrow> GLuint \<Rightarrow> GLuint \<Rightarrow> string \<Rightarrow> call" where
  "glBindFragDataLocationIndexedEXT prog cn ix nm =
     GL ''glBindFragDataLocationIndexedEXT'' [W32 prog, W32 cn, W32 ix, Str nm]"
definition glLinkProgram :: "GLuint \<Rightarrow> call" where
  "glLinkProgram prog = GL ''glLinkProgram'' [W32 prog]"
definition glGetProgramiv :: "GLuint \<Rightarrow> GLenum \<Rightarrow> call" where
  "glGetProgramiv prog pname = GL ''glGetProgramiv'' [W32 prog, W32 pname]"
definition glGetProgramInfoLog :: "GLuint \<Rightarrow> GLsizei \<Rightarrow> call" where
  "glGetProgramInfoLog prog bufSize = GL ''glGetProgramInfoLog'' [W32 prog, W32 bufSize]"
definition glUseProgram :: "GLuint \<Rightarrow> call" where
  "glUseProgram prog = GL ''glUseProgram'' [W32 prog]"
definition glGetUniformLocation :: "GLuint \<Rightarrow> string option \<Rightarrow> call" where
  "glGetUniformLocation prog nm = GL ''glGetUniformLocation'' [W32 prog, OptStr nm]"
definition glUniform1i :: "GLint \<Rightarrow> GLint \<Rightarrow> call" where
  "glUniform1i loc v = GL ''glUniform1i'' [W32 loc, W32 v]"
definition glCreateShader :: "GLenum \<Rightarrow> call" where
  "glCreateShader stage = GL ''glCreateShader'' [W32 stage]"
definition glShaderSource :: "GLuint \<Rightarrow> GLsizei \<Rightarrow> ptr \<Rightarrow> call" where
  "glShaderSource sh n code = GL ''glShaderSource'' [W32 sh, W32 n, Ptr code]"
definition glCompileShader :: "GLuint \<Rightarrow> call" where
  "glCompileShader sh = GL ''glCompileShader'' [W32 sh]"
definition glGetShaderiv :: "GLuint \<Rightarrow> GLenum \<Rightarrow> call" where
  "glGetShaderiv sh pname = GL ''glGetShaderiv'' [W32 sh, W32 pname]"
definition glGetShaderInfoLog :: "GLuint \<Rightarrow> GLsizei \<Rightarrow> call" where
  "glGetShaderInfoLog sh bufSize = GL ''glGetShaderInfoLog'' [W32 sh, W32 bufSize]"
definition glDeleteShader :: "GLuint \<Rightarrow> call" where
  "glDeleteShader sh = GL ''glDeleteShader'' [W32 sh]"
definition glTexImage2D ::
  "GLenum \<Rightarrow> GLint \<Rightarrow> GLint \<Rightarrow> GLsizei \<Rightarrow> GLsizei \<Rightarrow> GLint \<Rightarrow> GLenum \<Rightarrow> GLenum \<Rightarrow> ptr \<Rightarrow> call" where
  "glTexImage2D tgt level internalFormat wd ht border fmt ty dat =
     GL ''glTexImage2D'' [W32 tgt, W32 level, W32 internalFormat, W32 wd, W32 ht, W32 border,
       W32 fmt, W32 ty, Ptr dat]"
definition glTexParameteri :: "GLenum \<Rightarrow> GLenum \<Rightarrow> GLint \<Rightarrow> call" where
  "glTexParameteri tgt pname v = GL ''glTexParameteri'' [W32 tgt, W32 pname, W32 v]"
definition glTexParameterf :: "GLenum \<Rightarrow> GLenum \<Rightarrow> float \<Rightarrow> call" where
  "glTexParameterf tgt pname v = GL ''glTexParameterf'' [W32 tgt, W32 pname, Flt v]"
definition glEnable :: "GLenum \<Rightarrow> call" where
  "glEnable cap = GL ''glEnable'' [W32 cap]"
definition glDisable :: "GLenum \<Rightarrow> call" where
  "glDisable cap = GL ''glDisable'' [W32 cap]"
definition glBindVertexArray :: "GLuint \<Rightarrow> call" where
  "glBindVertexArray vao = GL ''glBindVertexArray'' [W32 vao]"
definition glDepthMask :: "bool \<Rightarrow> call" where
  "glDepthMask flag = GL ''glDepthMask'' [W32_of_bool flag]"
definition glDepthFunc :: "GLenum \<Rightarrow> call" where
  "glDepthFunc func = GL ''glDepthFunc'' [W32 func]"
definition glBlendEquationSeparate :: "GLenum \<Rightarrow> GLenum \<Rightarrow> call" where
  "glBlendEquationSeparate modeRGB modeAlpha =
     GL ''glBlendEquationSeparate'' [W32 modeRGB, W32 modeAlpha]"
definition glBlendFuncSeparate :: "GLenum \<Rightarrow> GLenum \<Rightarrow> GLenum \<Rightarrow> GLenum \<Rightarrow> call" where
  "glBlendFuncSeparate srcRGB dstRGB srcA dstA =
     GL ''glBlendFuncSeparate'' [W32 srcRGB, W32 dstRGB, W32 srcA, W32 dstA]"
definition glColorMask :: "32 word \<Rightarrow> 32 word \<Rightarrow> 32 word \<Rightarrow> 32 word \<Rightarrow> call" where
  "glColorMask r g b a = GL ''glColorMask'' [W32 r, W32 g, W32 b, W32 a]"
definition glClearDepthf :: "float \<Rightarrow> call" where
  "glClearDepthf d = GL ''glClearDepthf'' [Flt d]"
definition glClearDepth :: "float \<Rightarrow> call" where
  "glClearDepth d = GL ''glClearDepth'' [Flt d]"
definition glClearStencil :: "GLint \<Rightarrow> call" where
  "glClearStencil s = GL ''glClearStencil'' [W32 s]"
definition glClear :: "32 word \<Rightarrow> call" where
  "glClear bits = GL ''glClear'' [W32 bits]"
definition glBlendColor :: "float \<Rightarrow> float \<Rightarrow> float \<Rightarrow> float \<Rightarrow> call" where
  "glBlendColor r g b a = GL ''glBlendColor'' [Flt r, Flt g, Flt b, Flt a]"
definition glViewport :: "GLint \<Rightarrow> GLint \<Rightarrow> GLsizei \<Rightarrow> GLsizei \<Rightarrow> call" where
  "glViewport x y wd ht = GL ''glViewport'' [W32 x, W32 y, W32 wd, W32 ht]"
definition glDepthRange :: "float \<Rightarrow> float \<Rightarrow> call" where
  "glDepthRange n f = GL ''glDepthRange'' [Flt n, Flt f]"
definition glScissor :: "GLint \<Rightarrow> GLint \<Rightarrow> GLsizei \<Rightarrow> GLsizei \<Rightarrow> call" where
  "glScissor x y wd ht = GL ''glScissor'' [W32 x, W32 y, W32 wd, W32 ht]"
definition glUniform1f :: "GLint \<Rightarrow> raw32 \<Rightarrow> call" where
  "glUniform1f loc v0 = GL ''glUniform1f'' [W32 loc, W32 v0]"
definition glUniform2fv :: "GLint \<Rightarrow> GLsizei \<Rightarrow> raw32 list \<Rightarrow> call" where
  "glUniform2fv loc n v = GL ''glUniform2fv'' [W32 loc, W32 n, Words v]"
definition glUniform3fv :: "GLint \<Rightarrow> GLsizei \<Rightarrow> raw32 list \<Rightarrow> call" where
  "glUniform3fv loc n v = GL ''glUniform3fv'' [W32 loc, W32 n, Words v]"
definition glUniform4fv :: "GLint \<Rightarrow> GLsizei \<Rightarrow> raw32 list \<Rightarrow> call" where
  "glUniform4fv loc n v = GL ''glUniform4fv'' [W32 loc, W32 n, Words v]"
definition glUniform1iv :: "GLint \<Rightarrow> GLsizei \<Rightarrow> raw32 list \<Rightarrow> call" where
  "glUniform1iv loc n v = GL ''glUniform1iv'' [W32 loc, W32 n, Words v]"
definition glUniform2iv :: "GLint \<Rightarrow> GLsizei \<Rightarrow> raw32 list \<Rightarrow> call" where
  "glUniform2iv loc n v = GL ''glUniform2iv'' [W32 loc, W32 n, Words v]"
definition glUniform3iv :: "GLint \<Rightarrow> GLsizei \<Rightarrow> raw32 list \<Rightarrow> call" where
  "glUniform3iv loc n v = GL ''glUniform3iv'' [W32 loc, W32 n, Words v]"
definition glUniform4iv :: "GLint \<Rightarrow> GLsizei \<Rightarrow> raw32 list \<Rightarrow> call" where
  "glUniform4iv loc n v = GL ''glUniform4iv'' [W32 loc, W32 n, Words v]"
definition glUniformMatrix4fv :: "GLint \<Rightarrow> GLsizei \<Rightarrow> bool \<Rightarrow> raw32 list \<Rightarrow> call" where
  "glUniformMatrix4fv loc n tr m =
     GL ''glUniformMatrix4fv'' [W32 loc, W32 n, W32_of_bool tr, Words m]"
definition glStencilFunc :: "GLenum \<Rightarrow> GLint \<Rightarrow> GLuint \<Rightarrow> call" where
  "glStencilFunc func ref bits = GL ''glStencilFunc'' [W32 func, W32 ref, W32 bits]"
definition glStencilOp :: "GLenum \<Rightarrow> GLenum \<Rightarrow> GLenum \<Rightarrow> call" where
  "glStencilOp sfail zfail zpass = GL ''glStencilOp'' [W32 sfail, W32 zfail, W32 zpass]"
definition glStencilMask :: "GLuint \<Rightarrow> call" where
  "glStencilMask bits = GL ''glStencilMask'' [W32 bits]"
definition glActiveTexture :: "GLenum \<Rightarrow> call" where
  "glActiveTexture tex = GL ''glActiveTexture'' [W32 tex]"
definition glEnableVertexAttribArray :: "GLuint \<Rightarrow> call" where
  "glEnableVertexAttribArray ix = GL ''glEnableVertexAttribArray'' [W32 ix]"
definition glDisableVertexAttribArray :: "GLuint \<Rightarrow> call" where
  "glDisableVertexAttribArray ix = GL ''glDisableVertexAttribArray'' [W32 ix]"
definition glVertexAttribPointer ::
  "GLuint \<Rightarrow> GLint \<Rightarrow> GLenum \<Rightarrow> bool \<Rightarrow> GLsizei \<Rightarrow> intptr \<Rightarrow> call" where
  "glVertexAttribPointer ix sz ty normalized stride pointer =
     GL ''glVertexAttribPointer'' [W32 ix, W32 sz, W32 ty, W32_of_bool normalized, W32 stride,
       W64 pointer]"
definition glGenerateMipmap :: "GLenum \<Rightarrow> call" where
  "glGenerateMipmap tgt = GL ''glGenerateMipmap'' [W32 tgt]"
definition glDrawArrays :: "GLenum \<Rightarrow> GLint \<Rightarrow> GLsizei \<Rightarrow> call" where
  "glDrawArrays mode first cnt = GL ''glDrawArrays'' [W32 mode, W32 first, W32 cnt]"
definition glDrawElements :: "GLenum \<Rightarrow> GLsizei \<Rightarrow> GLenum \<Rightarrow> ptr \<Rightarrow> call" where
  "glDrawElements mode cnt ty indices = GL ''glDrawElements'' [W32 mode, W32 cnt, W32 ty, Ptr indices]"
definition glFrontFace :: "GLenum \<Rightarrow> call" where
  "glFrontFace mode = GL ''glFrontFace'' [W32 mode]"
definition glCullFace :: "GLenum \<Rightarrow> call" where
  "glCullFace mode = GL ''glCullFace'' [W32 mode]"

text \<open>
  \<open>glClearColor\<close> receives the four floats that \<open>Uint8x4ToFloat4\<close> (math/dataconv.h) makes
  of the packed colour; the trace records the packed colour.
\<close>

definition glClearColor_Uint8x4ToFloat4 :: "u32 \<Rightarrow> call" where
  "glClearColor_Uint8x4ToFloat4 packed = GL ''glClearColor'' [W32 packed]"

text \<open>
  The three region-copy entry points take the same fifteen arguments: name, target,
  level, x, y, z of the source, the same six of the destination, then width, height and
  depth.
\<close>

definition copyImageArgs ::
  "GLuint \<Rightarrow> GLenum \<Rightarrow> GLint \<Rightarrow> GLint \<Rightarrow> GLint \<Rightarrow> GLint \<Rightarrow>
   GLuint \<Rightarrow> GLenum \<Rightarrow> GLint \<Rightarrow> GLint \<Rightarrow> GLint \<Rightarrow> GLint \<Rightarrow>
   GLsizei \<Rightarrow> GLsizei \<Rightarrow> GLsizei \<Rightarrow> val list" where
  "copyImageArgs srcName srcTarget srcLevel srcX srcY srcZ
                 dstName dstTarget dstLevel dstX dstY dstZ wd ht dp =
     [W32 srcName, W32 srcTarget, W32 srcLevel, W32 srcX, W32 srcY, W32 srcZ,
      W32 dstName, W32 dstTarget, W32 dstLevel, W32 dstX, W32 dstY, W32 dstZ,
      W32 wd, W32 ht, W32 dp]"

definition glCopyImageSubDataOES :: "val list \<Rightarrow> call" where
  "glCopyImageSubDataOES args = GL ''glCopyImageSubDataOES'' args"
definition glCopyImageSubData :: "val list \<Rightarrow> call" where
  "glCopyImageSubData args = GL ''glCopyImageSubData'' args"
definition glCopyImageSubDataNV :: "val list \<Rightarrow> call" where
  "glCopyImageSubDataNV args = GL ''glCopyImageSubDataNV'' args"

subsection \<open>Resource records\<close>

text \<open>
  The records are declared in GLRenderManager.h; each one has the fields that
  GLQueueRunner.cpp reads or writes. They are owned outside the runner, which reaches
  them through pointers: the state maps addresses to records, one map per record type.
\<close>

record GLRTexture =
  texture :: GLuint
  target :: GLenum

record GLRBuffer =
  buffer :: GLuint
  buffer_target :: GLenum      \<comment> \<open>\<open>target_\<close>\<close>

record GLRShader =
  shader :: GLuint
  valid :: bool

record Semantic =
  sem_location :: "32 word"
  sem_attrib :: string

record UniformLocQuery =
  query_dest :: ptr               \<comment> \<open>\<open>GLint *dest\<close>\<close>
  query_name :: "string option"   \<comment> \<open>\<open>const char *name\<close>\<close>

record Initializer =
  init_uniform :: ptr             \<comment> \<open>\<open>GLint *uniform\<close>\<close>
  init_type :: "32 word"
  init_value :: "32 word"

record GLRProgram =
  program :: GLuint
  semantics :: "Semantic list"
  queries :: "UniformLocQuery list"
  initialize :: "Initializer list"

record Entry =
  entry_location :: "32 word"
  entry_count :: "32 word"
  entry_type :: GLenum
  entry_normalized :: bool
  entry_stride :: "32 word"
  entry_offset :: intptr

record GLRInputLayout =
  semanticsMask :: "32 word"
  entries :: "Entry list"

record GLRFramebuffer =
  width :: "32 word"
  height :: "32 word"
  color_texture :: GLuint         \<comment> \<open>\<open>color.texture\<close>\<close>
  depth_texture :: GLuint         \<comment> \<open>\<open>depth.texture\<close>\<close>

subsection \<open>The state\<close>

text \<open>
  The members of the class, named as in the source less the trailing underscore.
\<close>

record GLQueueRunner =
  nameCache :: "GLuint list"     \<comment> \<open>\<open>std::vector<GLuint>\<close>, the back is the last element\<close>
  globalVAO :: GLuint
  maxAnisotropyLevel :: float
  curFramebuffer :: ptr
  curFBWidth :: "32 word"
  curFBHeight :: "32 word"
  targetWidth :: "32 word"
  targetHeight :: "32 word"

record World = GLQueueRunner +
  textures :: "addr \<rightharpoonup> GLRTexture"
  buffers :: "addr \<rightharpoonup> GLRBuffer"
  shaders :: "addr \<rightharpoonup> GLRShader"
  programs :: "addr \<rightharpoonup> GLRProgram"
  inputLayouts :: "addr \<rightharpoonup> GLRInputLayout"
  framebuffers :: "addr \<rightharpoonup> GLRFramebuffer"
  ints :: "addr \<rightharpoonup> GLint"          \<comment> \<open>the cells that \<open>GLint *\<close> pointers designate\<close>
  trace :: "call list"                \<comment> \<open>oldest call first\<close>
  namesIssued :: nat                  \<comment> \<open>how many object names the driver has handed out\<close>

text \<open>
  What the driver answers is a parameter of the model. \<open>freshName drv k\<close> is the
  \<open>k\<close>-th object name it hands out (through \<open>glGen*\<close> and \<open>glCreate*\<close>); the other
  fields are its answers to the queries. \<open>GetUniformLoc\<close> is the method of
  \<open>GLRProgram\<close> (GLRenderManager.h) that resolves a uniform name.
\<close>

record GLDriver =
  freshName :: "nat \<Rightarrow> GLuint"
  maxTextureMaxAnisotropy :: float
  compileStatus :: "GLuint \<Rightarrow> GLint"
  shaderInfoLog :: "GLuint \<Rightarrow> string"
  linkStatus :: "GLuint \<Rightarrow> GLint"
  programInfoLogLength :: "GLuint \<Rightarrow> GLint"
  programInfoLog :: "GLuint \<Rightarrow> string"
  uniformLocation :: "GLuint \<Rightarrow> string option \<Rightarrow> GLint"
  GetUniformLoc :: "GLRProgram \<Rightarrow> string \<Rightarrow> GLint"

record Platform =
  USING_GLES2 :: bool
  IOS :: bool
  WIN32 :: bool
  VersionGEThan_3_3_0 :: bool             \<comment> \<open>\<open>gl_extensions.VersionGEThan(3, 3, 0)\<close>\<close>
  GLES3 :: bool                           \<comment> \<open>\<open>gl_extensions.GLES3\<close>\<close>
  ARB_copy_image :: bool                  \<comment> \<open>\<open>gl_extensions.ARB_copy_image\<close>\<close>
  NV_copy_image :: bool                   \<comment> \<open>\<open>gl_extensions.NV_copy_image\<close>\<close>
  GPU_SUPPORTS_DUALSOURCE_BLEND :: bool   \<comment> \<open>the bit of \<open>gstate_c.featureFlags\<close>\<close>

text \<open>
  Modelled from the spec: \<open>Crash()\<close> (base/logging.h) ends the process; an unrecognised
  step or command tag is fatal.
\<close>

datatype error = Crash | NullPointer | DanglingPointer | OutOfBounds | AssertFailed

text \<open>Following a pointer gives the address and the record found there.\<close>

definition deref :: "(addr \<rightharpoonup> 'a) \<Rightarrow> ptr \<Rightarrow> error + (addr \<times> 'a)" where
  "deref m p =
     (case p of
        None \<Rightarrow> Inl NullPointer
      | Some a \<Rightarrow> (case m a of None \<Rightarrow> Inl DanglingPointer | Some v \<Rightarrow> Inr (a, v)))"

definition emit :: "call list \<Rightarrow> World \<Rightarrow> World" where
  "emit cs w = w\<lparr>trace := trace w @ cs\<rparr>"

definition genNames :: "GLDriver \<Rightarrow> nat \<Rightarrow> World \<Rightarrow> GLuint list \<times> World" where
  "genNames drv n w =
     (map (freshName drv) [namesIssued w ..< namesIssued w + n],
      w\<lparr>namesIssued := namesIssued w + n\<rparr>)"

definition genName :: "GLDriver \<Rightarrow> World \<Rightarrow> GLuint \<times> World" where
  "genName drv w = (freshName drv (namesIssued w), w\<lparr>namesIssued := namesIssued w + 1\<rparr>)"

text \<open>Running a loop body over the elements of a list, stopping at the first error.\<close>

fun forEach :: "('a \<Rightarrow> 's \<Rightarrow> error + 's) \<Rightarrow> 'a list \<Rightarrow> 's \<Rightarrow> error + 's" where
  "forEach body [] s = Inr s"
| "forEach body (x # xs) s =
     (case body x s of Inl e \<Rightarrow> Inl e | Inr s' \<Rightarrow> forEach body xs s')"

subsection \<open>Device objects and the texture name cache\<close>

definition CreateDeviceObjects :: "GLDriver \<Rightarrow> World \<Rightarrow> World" where
  "CreateDeviceObjects drv w =
     (let w1 = (emit [glGetFloatv GL_MAX_TEXTURE_MAX_ANISOTROPY_EXT] w)
                 \<lparr>maxAnisotropyLevel := maxTextureMaxAnisotropy drv\<rparr>;
          (vao, w2) = genName drv (emit [glGenVertexArrays 1] w1)
      in w2\<lparr>globalVAO := vao\<rparr>)"

definition DestroyDeviceObjects :: "World \<Rightarrow> World" where
  "DestroyDeviceObjects w =
     (let w1 = (if nameCache w \<noteq> []
                then (emit [glDeleteTextures (word_of_nat (length (nameCache w))) (nameCache w)] w)
                       \<lparr>nameCache := []\<rparr>
                else w)
      in emit [glDeleteVertexArrays 1 [globalVAO w1]] w1)"

text \<open>
  \<open>AllocTextureName\<close>: an empty cache is resized to 16 cells, which one \<open>glGenTextures\<close>
  call fills; then the back of the cache is popped and returned. The cache is not empty
  when its back is read: a refill leaves 16 names in it (lemma \<open>refillNameCache_eq\<close>).
\<close>

definition refillNameCache :: "GLDriver \<Rightarrow> World \<Rightarrow> World" where
  "refillNameCache drv w =
     (let w1 = w\<lparr>nameCache := replicate TEXCACHE_NAME_CACHE_SIZE 0\<rparr>;
          (names, w2) = genNames drv TEXCACHE_NAME_CACHE_SIZE
                          (emit [glGenTextures (word_of_nat TEXCACHE_NAME_CACHE_SIZE)] w1)
      in w2\<lparr>nameCache := names @ drop (length names) (nameCache w2)\<rparr>)"

definition AllocTextureName :: "GLDriver \<Rightarrow> World \<Rightarrow> GLuint \<times> World" where
  "AllocTextureName drv w =
     (let w1 = (if nameCache w = [] then refillNameCache drv w else w);
          name = last (nameCache w1)
      in (name, w1\<lparr>nameCache := butlast (nameCache w1)\<rparr>))"

text \<open>A continuous sequence of \<open>n\<close> allocations; the names in the order returned.\<close>

fun AllocTextureNames :: "GLDriver \<Rightarrow> nat \<Rightarrow> World \<Rightarrow> GLuint list \<times> World" where
  "AllocTextureNames drv 0 w = ([], w)"
| "AllocTextureNames drv (Suc n) w =
     (let (name, w1) = AllocTextureName drv w;
          (names, w2) = AllocTextureNames drv n w1
      in (name # names, w2))"

subsection \<open>Init steps\<close>

text \<open>
  \<open>GLRInitStep\<close> is a tag and a union of per-tag payloads (GLRenderManager.h); the
  constructors carry the payload fields that \<open>RunInitSteps\<close> reads, in the order given
  in the comments. \<open>UNKNOWN_INIT_STEP\<close> stands for any other value of the tag.
\<close>

datatype GLRInitStep =
    CREATE_TEXTURE ptr
      \<comment> \<open>texture\<close>
  | CREATE_SHADER ptr GLenum ptr
      \<comment> \<open>shader, stage, code\<close>
  | CREATE_PROGRAM ptr "ptr list" "32 word" bool
      \<comment> \<open>program, shaders, num_shaders, support_dual_source\<close>
  | CREATE_BUFFER ptr "32 word" GLenum
      \<comment> \<open>buffer, size, usage\<close>
  | CREATE_INPUT_LAYOUT ptr
      \<comment> \<open>inputLayout\<close>
  | CREATE_FRAMEBUFFER ptr
      \<comment> \<open>framebuffer\<close>
  | TEXTURE_SUBDATA
  | TEXTURE_IMAGE ptr GLint GLint "32 word" "32 word" GLenum GLenum ptr bool
      \<comment> \<open>texture, level, internalFormat, width, height, format, type, data, linearFilter\<close>
  | BUFFER_SUBDATA ptr "32 word" "32 word" ptr bool
      \<comment> \<open>buffer, offset, size, data, deleteData\<close>
  | UNKNOWN_INIT_STEP

text \<open>The body of the loop that attaches \<open>shaders[i]\<close>.\<close>

definition attachShader :: "GLuint \<Rightarrow> ptr list \<Rightarrow> nat \<Rightarrow> World \<Rightarrow> error + World" where
  "attachShader prog shs i w =
     (if i < length shs then
        (case deref (shaders w) (shs ! i) of
           Inl e \<Rightarrow> Inl e
         | Inr (a, sh) \<Rightarrow> Inr (emit [glAttachShader prog (shader sh)] w))
      else Inl OutOfBounds)"

definition bindFragDataLocations :: "Platform \<Rightarrow> bool \<Rightarrow> GLuint \<Rightarrow> call list" where
  "bindFragDataLocations plat support_dual_source prog =
     (if \<not> USING_GLES2 plat then
        (if support_dual_source then
           [glBindFragDataLocationIndexed prog 0 0 ''fragColor0'',
            glBindFragDataLocationIndexed prog 0 1 ''fragColor1'']
         else if VersionGEThan_3_3_0 plat then
           [glBindFragDataLocation prog 0 ''fragColor0'']
         else [])
      else if \<not> IOS plat then
        (if GLES3 plat then
           (if GPU_SUPPORTS_DUALSOURCE_BLEND plat then
              [glBindFragDataLocationIndexedEXT prog 0 0 ''fragColor0'',
               glBindFragDataLocationIndexedEXT prog 0 1 ''fragColor1'']
            else [])
         else [])
      else [])"

text \<open>The branch taken when the link status is not \<open>GL_TRUE\<close>.\<close>

definition linkFailure :: "Platform \<Rightarrow> GLDriver \<Rightarrow> GLuint \<Rightarrow> 32 word \<Rightarrow> call list" where
  "linkFailure plat drv prog num_shaders =
     glGetProgramiv prog GL_INFO_LOG_LENGTH #
     (let bufLength = programInfoLogLength drv prog in
      if bufLength \<noteq> 0 then
        [glGetProgramInfoLog prog bufLength,
         ELOG ''Could not link program:\<newline> %s'' [Str (programInfoLog drv prog)]] @
        (if WIN32 plat then [OutputDebugStringUTF8 (programInfoLog drv prog)] else [])
      else
        [ELOG ''Could not link program with %d shaders for unknown reason:'' [W32 num_shaders]])"

text \<open>\<open>*x.dest = glGetUniformLocation(program->program, x.name)\<close>\<close>

definition runQuery :: "GLDriver \<Rightarrow> GLuint \<Rightarrow> UniformLocQuery \<Rightarrow> World \<Rightarrow> error + World" where
  "runQuery drv prog x w =
     (let w1 = emit [glGetUniformLocation prog (query_name x)] w in
      case deref (ints w1) (query_dest x) of
        Inl e \<Rightarrow> Inl e
      | Inr (a, old) \<Rightarrow>
          Inr (w1\<lparr>ints := (ints w1)(a \<mapsto> uniformLocation drv prog (query_name x))\<rparr>))"

definition runInitializer :: "Initializer \<Rightarrow> World \<Rightarrow> error + World" where
  "runInitializer init w =
     (case deref (ints w) (init_uniform init) of
        Inl e \<Rightarrow> Inl e
      | Inr (a, uniform) \<Rightarrow>
          Inr (if uniform \<noteq> - 1 then
                 (if init_type init = 0 then emit [glUniform1i uniform (init_value init)] w
                  else w)
               else w))"

text \<open>
  Modelled from the spec: the macro \<open>_assert_msg_\<close> (base/logging.h). A program with no
  shader is a violation of the caller's contract: the model stops with \<open>AssertFailed\<close>
  where the condition of the macro is false.
\<close>

fun RunInitStep :: "Platform \<Rightarrow> GLDriver \<Rightarrow> GLRInitStep \<Rightarrow> World \<Rightarrow> error + World" where
  "RunInitStep plat drv (CREATE_TEXTURE tex_p) w =
     (case deref (textures w) tex_p of
        Inl e \<Rightarrow> Inl e
      | Inr (a, tex) \<Rightarrow>
          (let (name, w1) = genName drv (emit [glGenTextures 1] w);
               w2 = w1\<lparr>textures := (textures w1)(a \<mapsto> tex\<lparr>texture := name\<rparr>)\<rparr>
           in Inr (emit [glBindTexture (target tex) name] w2)))"
| "RunInitStep plat drv (CREATE_BUFFER buffer_p sz usage) w =
     (case deref (buffers w) buffer_p of
        Inl e \<Rightarrow> Inl e
      | Inr (a, buf) \<Rightarrow>
          (let (name, w1) = genName drv (emit [glGenBuffers 1] w);
               w2 = w1\<lparr>buffers := (buffers w1)(a \<mapsto> buf\<lparr>buffer := name\<rparr>)\<rparr>
           in Inr (emit [glBindBuffer (buffer_target buf) name,
                         glBufferData (buffer_target buf) sz None usage] w2)))"
| "RunInitStep plat drv (BUFFER_SUBDATA buffer_p off sz dat deleteData) w =
     (case deref (buffers w) buffer_p of
        Inl e \<Rightarrow> Inl e
      | Inr (a, buf) \<Rightarrow>
          (let w1 = emit [glBindBuffer GL_ARRAY_BUFFER (buffer buf),
                          glBufferSubData GL_ARRAY_BUFFER off sz dat] w
           in Inr (if deleteData then emit [DeleteArray dat] w1 else w1)))"
| "RunInitStep plat drv (CREATE_PROGRAM program_p shs num_shaders support_dual_source) w =
     (case deref (programs w) program_p of
        Inl e \<Rightarrow> Inl e
      | Inr (a, pr) \<Rightarrow>
          (let (name, w1) = genName drv (emit [glCreateProgram] w);
               w2 = w1\<lparr>programs := (programs w1)(a \<mapsto> pr\<lparr>program := name\<rparr>)\<rparr>
           in if \<not> (0 <s num_shaders) then Inl AssertFailed
              else
                (case forEach (attachShader name shs) [0 ..< nat (sint num_shaders)] w2 of
                   Inl e \<Rightarrow> Inl e
                 | Inr w3 \<Rightarrow>
                     (let w4 = emit (map (\<lambda>iter. glBindAttribLocation name (sem_location iter)
                                                    (sem_attrib iter)) (semantics pr)) w3;
                          w5 = emit (bindFragDataLocations plat support_dual_source name) w4;
                          w6 = emit [glLinkProgram name, glGetProgramiv name GL_LINK_STATUS] w5
                      in if linkStatus drv name \<noteq> GL_TRUE then
                           Inr (emit (linkFailure plat drv name num_shaders) w6)
                         else
                           (case forEach (runQuery drv name) (queries pr)
                                   (emit [glUseProgram name] w6) of
                              Inl e \<Rightarrow> Inl e
                            | Inr w7 \<Rightarrow> forEach runInitializer (initialize pr) w7)))))"
| "RunInitStep plat drv (CREATE_SHADER shader_p stage code) w =
     (let (name, w1) = genName drv (emit [glCreateShader stage] w) in
      case deref (shaders w1) shader_p of
        Inl e \<Rightarrow> Inl e
      | Inr (a, sh) \<Rightarrow>
          (let sh1 = sh\<lparr>shader := name\<rparr>;
               w2 = emit [glShaderSource name 1 code, DeleteArray code, glCompileShader name,
                          glGetShaderiv name GL_COMPILE_STATUS]
                      (w1\<lparr>shaders := (shaders w1)(a \<mapsto> sh1)\<rparr>);
               success = compileStatus drv name;
               (sh2, w3) =
                 (if success = 0 then
                    (sh1\<lparr>valid := False\<rparr>,
                     (emit [glGetShaderInfoLog name (word_of_nat MAX_INFO_LOG_SIZE),
                            glDeleteShader name,
                            ILOG ''%s Shader compile error:\<newline>%s''
                              [Str (if stage = GL_FRAGMENT_SHADER then ''Fragment'' else ''Vertex''),
                               Str (shaderInfoLog drv name)]] w2)
                       \<lparr>shaders := (shaders w2)(a \<mapsto> sh1\<lparr>valid := False\<rparr>)\<rparr>)
                  else (sh1, w2))
           in Inr (w3\<lparr>shaders := (shaders w3)(a \<mapsto> sh2\<lparr>valid := True\<rparr>)\<rparr>)))"
| "RunInitStep plat drv (CREATE_INPUT_LAYOUT layout_p) w = Inr w"
| "RunInitStep plat drv (CREATE_FRAMEBUFFER fb_p) w = Inr w"
| "RunInitStep plat drv TEXTURE_SUBDATA w = Inr w"
| "RunInitStep plat drv (TEXTURE_IMAGE tex_p level internalFormat wd ht fmt ty dat linearFilter) w =
     (case deref (textures w) tex_p of
        Inl e \<Rightarrow> Inl e
      | Inr (a, tex) \<Rightarrow>
          Inr (emit
            [glTexImage2D (target tex) level internalFormat wd ht 0 fmt ty dat,
             DeleteArray dat,
             glTexParameteri GL_TEXTURE_2D GL_TEXTURE_WRAP_S GL_CLAMP_TO_EDGE,
             glTexParameteri GL_TEXTURE_2D GL_TEXTURE_WRAP_T GL_CLAMP_TO_EDGE,
             glTexParameteri GL_TEXTURE_2D GL_TEXTURE_MAG_FILTER
               (if linearFilter then GL_LINEAR else GL_NEAREST),
             glTexParameteri GL_TEXTURE_2D GL_TEXTURE_MIN_FILTER
               (if linearFilter then GL_LINEAR else GL_NEAREST)] w))"
| "RunInitStep plat drv UNKNOWN_INIT_STEP w = Inl Crash"

definition RunInitSteps :: "Platform \<Rightarrow> GLDriver \<Rightarrow> GLRInitStep list \<Rightarrow> World \<Rightarrow> error + World" where
  "RunInitSteps plat drv steps w = forEach (RunInitStep plat drv) steps w"

subsection \<open>Render steps\<close>

record GLRViewport =
  vp_x :: float
  vp_y :: float
  vp_w :: float
  vp_h :: float
  vp_minZ :: float
  vp_maxZ :: float

record GLRect2D =
  rc_x :: "32 word"
  rc_y :: "32 word"
  rc_w :: "32 word"
  rc_h :: "32 word"

record GLOffset2D =
  off_x :: "32 word"
  off_y :: "32 word"

text \<open>
  \<open>GLRRenderData\<close> is a tag \<open>cmd\<close> and a union of per-tag payloads; the constructors
  carry the payload fields that \<open>PerformRenderPass\<close> reads, in the order given in the
  comments. \<open>UNKNOWN_RENDER_COMMAND\<close> stands for any other value of the tag.
\<close>

datatype GLRRenderData =
    DEPTH bool bool GLenum
      \<comment> \<open>enabled, write, func\<close>
  | BLEND bool GLenum GLenum GLenum GLenum GLenum GLenum "32 word"
      \<comment> \<open>enabled, funcColor, funcAlpha, srcColor, dstColor, srcAlpha, dstAlpha, mask\<close>
  | CLEAR u32 float GLint "32 word"
      \<comment> \<open>clearColor, clearZ, clearStencil, clearMask\<close>
  | BLENDCOLOR float float float float
      \<comment> \<open>color[0], color[1], color[2], color[3]\<close>
  | VIEWPORT GLRViewport
      \<comment> \<open>vp\<close>
  | SCISSOR GLRect2D
      \<comment> \<open>rc\<close>
  | UNIFORM4F "string option" ptr "32 word" raw32x4
      \<comment> \<open>name, loc, count, v\<close>
  | UNIFORM4I "string option" ptr "32 word" raw32x4
      \<comment> \<open>name, loc, count, v\<close>
  | UNIFORMMATRIX "string option" ptr "raw32 list"
      \<comment> \<open>name, loc, m\<close>
  | STENCILFUNC bool GLenum GLint GLuint
      \<comment> \<open>enabled, func, ref, compareMask\<close>
  | STENCILOP GLenum GLenum GLenum GLuint
      \<comment> \<open>sFail, zFail, pass, writeMask\<close>
  | BINDTEXTURE GLint ptr
      \<comment> \<open>slot, texture\<close>
  | BINDPROGRAM ptr
      \<comment> \<open>program\<close>
  | BIND_INPUT_LAYOUT ptr intptr
      \<comment> \<open>inputLayout, offset\<close>
  | BIND_VERTEX_BUFFER ptr
      \<comment> \<open>buffer\<close>
  | BIND_INDEX_BUFFER ptr
      \<comment> \<open>buffer\<close>
  | GENMIPS
  | DRAW GLenum GLint GLint
      \<comment> \<open>mode, first, count\<close>
  | DRAW_INDEXED GLenum GLint GLint GLenum ptr
      \<comment> \<open>mode, count, instances, indexType, indices\<close>
  | TEXTURESAMPLER GLint GLint GLint GLint float
      \<comment> \<open>wrapS, wrapT, magFilter, minFilter, anisotropy\<close>
  | RASTER bool GLenum GLenum bool
      \<comment> \<open>cullEnable, frontFace, cullFace, ditherEnable\<close>
  | UNKNOWN_RENDER_COMMAND

datatype GLRStepType = RENDER | COPY | BLIT | READBACK | READBACK_IMAGE | UNKNOWN_STEP

text \<open>
  \<open>GLRStep\<close>: the tag, the command list, and the payloads \<open>render\<close> and \<open>copy\<close>.
  \<open>copy_dst\<close> is the destination reference that a Copy step carries; no function of
  GLQueueRunner.cpp reads it.
\<close>

record GLRStep =
  stepType :: GLRStepType
  commands :: "GLRRenderData list"
  render_framebuffer :: ptr            \<comment> \<open>\<open>render.framebuffer\<close>\<close>
  copy_src :: ptr                      \<comment> \<open>\<open>copy.src\<close>\<close>
  copy_dst :: ptr                      \<comment> \<open>\<open>copy.dst\<close>\<close>
  copy_srcRect :: GLRect2D             \<comment> \<open>\<open>copy.srcRect\<close>\<close>
  copy_dstPos :: GLOffset2D            \<comment> \<open>\<open>copy.dstPos\<close>\<close>
  copy_aspectMask :: "32 word"         \<comment> \<open>\<open>copy.aspectMask\<close>\<close>

text \<open>The local variables of \<open>PerformRenderPass\<close> that live across commands.\<close>

record PassState =
  curProgram :: ptr
  activeTexture :: GLint
  attrMask :: "32 word"

definition PerformBindFramebufferAsRenderTarget :: "GLRStep \<Rightarrow> World \<Rightarrow> error + World" where
  "PerformBindFramebufferAsRenderTarget pass w =
     (if render_framebuffer pass \<noteq> None then
        (case deref (framebuffers w) (render_framebuffer pass) of
           Inl e \<Rightarrow> Inl e
         | Inr (a, fb) \<Rightarrow> Inr (w\<lparr>curFBWidth := width fb, curFBHeight := height fb\<rparr>))
      else Inr (w\<lparr>curFBWidth := targetWidth w, curFBHeight := targetHeight w\<rparr>))"

text \<open>
  \<open>int loc = c.uniform4.loc ? *c.uniform4.loc : -1;
  if (c.uniform4.name) loc = curProgram->GetUniformLoc(c.uniform4.name);\<close>
\<close>

definition resolveUniformLoc ::
  "GLDriver \<Rightarrow> string option \<Rightarrow> ptr \<Rightarrow> PassState \<Rightarrow> World \<Rightarrow> error + GLint" where
  "resolveUniformLoc drv name loc_p ps w =
     (case (if loc_p \<noteq> None then map_sum id snd (deref (ints w) loc_p) else Inr (- 1)) of
        Inl e \<Rightarrow> Inl e
      | Inr loc \<Rightarrow>
          (case name of
             None \<Rightarrow> Inr loc
           | Some n \<Rightarrow>
               (case deref (programs w) (curProgram ps) of
                  Inl e \<Rightarrow> Inl e
                | Inr (a, pr) \<Rightarrow> Inr (GetUniformLoc drv pr n))))"

text \<open>
  The loop \<open>for (int i = 0; i < 7; i++)\<close> of the \<open>BIND_INPUT_LAYOUT\<close> case, and the one
  that disables the attributes at the end of the pass.
\<close>

definition SEM_MAX :: nat where "SEM_MAX = 7"

definition toggleAttrib :: "32 word \<Rightarrow> 32 word \<Rightarrow> nat \<Rightarrow> call list" where
  "toggleAttrib enable disable i =
     (if enable AND push_bit i 1 \<noteq> 0 then [glEnableVertexAttribArray (word_of_nat i)] else []) @
     (if disable AND push_bit i 1 \<noteq> 0 then [glDisableVertexAttribArray (word_of_nat i)] else [])"

definition toggleAttribs :: "32 word \<Rightarrow> 32 word \<Rightarrow> call list" where
  "toggleAttribs enable disable = concat (map (toggleAttrib enable disable) [0 ..< SEM_MAX])"

definition disableAttribs :: "32 word \<Rightarrow> call list" where
  "disableAttribs attrs =
     concat (map (\<lambda>i.
        (if attrs AND push_bit i 1 \<noteq> 0 then [glDisableVertexAttribArray (word_of_nat i)] else []))
       [0 ..< SEM_MAX])"

text \<open>
  The loop over \<open>layout->entries\<close>, which sets the format of one attribute per entry at
  \<open>c.inputLayout.offset + entry.offset\<close>.
\<close>

definition vertexAttribPointers :: "intptr \<Rightarrow> Entry list \<Rightarrow> call list" where
  "vertexAttribPointers off es =
     map (\<lambda>entry. glVertexAttribPointer (entry_location entry) (entry_count entry)
            (entry_type entry) (entry_normalized entry) (entry_stride entry)
            (off + entry_offset entry)) es"

fun PerformRenderCommand ::
  "Platform \<Rightarrow> GLDriver \<Rightarrow> GLRRenderData \<Rightarrow> PassState \<times> World \<Rightarrow> error + (PassState \<times> World)" where
  "PerformRenderCommand plat drv (DEPTH enabled write func) (ps, w) =
     Inr (ps, emit (if enabled
                    then [glEnable GL_DEPTH_TEST, glDepthMask write, glDepthFunc func]
                    else [glDisable GL_DEPTH_TEST]) w)"
| "PerformRenderCommand plat drv
     (BLEND enabled funcColor funcAlpha srcColor dstColor srcAlpha dstAlpha msk) (ps, w) =
     Inr (ps, emit ((if enabled
                     then [glEnable GL_BLEND, glBlendEquationSeparate funcColor funcAlpha,
                           glBlendFuncSeparate srcColor dstColor srcAlpha dstAlpha]
                     else [glDisable GL_BLEND]) @
                    [glColorMask (msk AND 1) (signed_drop_bit 1 msk AND 1)
                       (signed_drop_bit 2 msk AND 1) (signed_drop_bit 3 msk AND 1)]) w)"
| "PerformRenderCommand plat drv (CLEAR clearColor clearZ clearStencil clearMask) (ps, w) =
     Inr (ps, emit ([glDisable GL_SCISSOR_TEST, glColorMask GL_TRUE GL_TRUE GL_TRUE GL_TRUE] @
                    (if clearMask AND GL_COLOR_BUFFER_BIT \<noteq> 0
                     then [glClearColor_Uint8x4ToFloat4 clearColor] else []) @
                    (if clearMask AND GL_DEPTH_BUFFER_BIT \<noteq> 0
                     then [if USING_GLES2 plat then glClearDepthf clearZ else glClearDepth clearZ]
                     else []) @
                    (if clearMask AND GL_STENCIL_BUFFER_BIT \<noteq> 0
                     then [glClearStencil clearStencil] else []) @
                    [glClear clearMask, glEnable GL_SCISSOR_TEST]) w)"
| "PerformRenderCommand plat drv (BLENDCOLOR c0 c1 c2 c3) (ps, w) =
     Inr (ps, emit [glBlendColor c0 c1 c2 c3] w)"
| "PerformRenderCommand plat drv (VIEWPORT vp) (ps, w) =
     (let y = (if curFramebuffer w = None
               then float_of_int32 (curFBHeight w) - vp_y vp - vp_h vp
               else vp_y vp)
      in Inr (ps, emit [glViewport (GLint_of_float (vp_x vp)) (GLint_of_float y)
                          (GLint_of_float (vp_w vp)) (GLint_of_float (vp_h vp)),
                        glDepthRange (vp_minZ vp) (vp_maxZ vp)] w))"
| "PerformRenderCommand plat drv (SCISSOR rc) (ps, w) =
     (let y = (if curFramebuffer w = None
               then curFBHeight w - rc_y rc - rc_h rc
               else rc_y rc)
      in Inr (ps, emit [glScissor (rc_x rc) y (rc_w rc) (rc_h rc)] w))"
| "PerformRenderCommand plat drv (UNIFORM4F name loc_p cnt v) (ps, w) =
     (case resolveUniformLoc drv name loc_p ps w of
        Inl e \<Rightarrow> Inl e
      | Inr loc \<Rightarrow>
          Inr (ps, if 0 \<le>s loc then
                     (if cnt = 1 then emit [glUniform1f loc (fst v)] w
                      else if cnt = 2 then emit [glUniform2fv loc 1 (cells v)] w
                      else if cnt = 3 then emit [glUniform3fv loc 1 (cells v)] w
                      else if cnt = 4 then emit [glUniform4fv loc 1 (cells v)] w
                      else w)
                   else w))"
| "PerformRenderCommand plat drv (UNIFORM4I name loc_p cnt v) (ps, w) =
     (case resolveUniformLoc drv name loc_p ps w of
        Inl e \<Rightarrow> Inl e
      | Inr loc \<Rightarrow>
          Inr (ps, if 0 \<le>s loc then
                     (if cnt = 1 then emit [glUniform1iv loc 1 (cells v)] w
                      else if cnt = 2 then emit [glUniform2iv loc 1 (cells v)] w
                      else if cnt = 3 then emit [glUniform3iv loc 1 (cells v)] w
                      else if cnt = 4 then emit [glUniform4iv loc 1 (cells v)] w
                      else w)
                   else w))"
| "PerformRenderCommand plat drv (UNIFORMMATRIX name loc_p m) (ps, w) =
     (case resolveUniformLoc drv name loc_p ps w of
        Inl e \<Rightarrow> Inl e
      | Inr loc \<Rightarrow>
          Inr (ps, if 0 \<le>s loc then emit [glUniformMatrix4fv loc 1 False m] w else w))"
| "PerformRenderCommand plat drv (STENCILFUNC enabled func ref compareMask) (ps, w) =
     Inr (ps, emit (if enabled
                    then [glEnable GL_STENCIL_TEST, glStencilFunc func ref compareMask]
                    else [glDisable GL_STENCIL_TEST]) w)"
| "PerformRenderCommand plat drv (STENCILOP sFail zFail pass writeMask) (ps, w) =
     Inr (ps, emit [glStencilOp sFail zFail pass, glStencilMask writeMask] w)"
| "PerformRenderCommand plat drv (BINDTEXTURE slot tex_p) (ps, w) =
     (let (ps1, w1) =
            (if slot \<noteq> activeTexture ps
             then (ps\<lparr>activeTexture := slot\<rparr>, emit [glActiveTexture (GL_TEXTURE0 + slot)] w)
             else (ps, w))
      in if tex_p \<noteq> None then
           (case deref (textures w1) tex_p of
              Inl e \<Rightarrow> Inl e
            | Inr (a, tex) \<Rightarrow> Inr (ps1, emit [glBindTexture (target tex) (texture tex)] w1))
         else Inr (ps1, emit [glBindTexture GL_TEXTURE_2D 0] w1))"
| "PerformRenderCommand plat drv (BINDPROGRAM program_p) (ps, w) =
     (case deref (programs w) program_p of
        Inl e \<Rightarrow> Inl e
      | Inr (a, pr) \<Rightarrow> Inr (ps\<lparr>curProgram := program_p\<rparr>, emit [glUseProgram (program pr)] w))"
| "PerformRenderCommand plat drv (BIND_INPUT_LAYOUT layout_p off) (ps, w) =
     (case deref (inputLayouts w) layout_p of
        Inl e \<Rightarrow> Inl e
      | Inr (a, layout) \<Rightarrow>
          (let enable = semanticsMask layout AND NOT (attrMask ps);
               disable = NOT (semanticsMask layout) AND attrMask ps
           in Inr (ps\<lparr>attrMask := semanticsMask layout\<rparr>,
                   emit (toggleAttribs enable disable @
                         vertexAttribPointers off (entries layout)) w)))"
| "PerformRenderCommand plat drv (BIND_VERTEX_BUFFER buffer_p) (ps, w) =
     (if buffer_p \<noteq> None then
        (case deref (buffers w) buffer_p of
           Inl e \<Rightarrow> Inl e
         | Inr (a, buf) \<Rightarrow> Inr (ps, emit [glBindBuffer GL_ARRAY_BUFFER (buffer buf)] w))
      else Inr (ps, emit [glBindBuffer GL_ARRAY_BUFFER 0] w))"
| "PerformRenderCommand plat drv (BIND_INDEX_BUFFER buffer_p) (ps, w) =
     (if buffer_p \<noteq> None then
        (case deref (buffers w) buffer_p of
           Inl e \<Rightarrow> Inl e
         | Inr (a, buf) \<Rightarrow> Inr (ps, emit [glBindBuffer GL_ELEMENT_ARRAY_BUFFER (buffer buf)] w))
      else Inr (ps, emit [glBindBuffer GL_ELEMENT_ARRAY_BUFFER 0] w))"
| "PerformRenderCommand plat drv GENMIPS (ps, w) =
     Inr (ps, emit [glGenerateMipmap GL_TEXTURE_2D] w)"
| "PerformRenderCommand plat drv (DRAW mode first cnt) (ps, w) =
     Inr (ps, emit [glDrawArrays mode first cnt] w)"
| "PerformRenderCommand plat drv (DRAW_INDEXED mode cnt instances indexType indices) (ps, w) =
     Inr (ps, if instances = 1 then emit [glDrawElements mode cnt indexType indices] w else w)"
| "PerformRenderCommand plat drv (TEXTURESAMPLER wrapS wrapT magFilter minFilter anisotropy) (ps, w) =
     Inr (ps, emit ([glTexParameteri GL_TEXTURE_2D GL_TEXTURE_WRAP_S wrapS,
                     glTexParameteri GL_TEXTURE_2D GL_TEXTURE_WRAP_T wrapT,
                     glTexParameteri GL_TEXTURE_2D GL_TEXTURE_MAG_FILTER magFilter,
                     glTexParameteri GL_TEXTURE_2D GL_TEXTURE_MIN_FILTER minFilter] @
                    (if anisotropy \<noteq> 0
                     then [glTexParameterf GL_TEXTURE_2D GL_TEXTURE_MAX_ANISOTROPY_EXT anisotropy]
                     else [])) w)"
| "PerformRenderCommand plat drv (RASTER cullEnable frontFace cullFace ditherEnable) (ps, w) =
     Inr (ps, emit ((if cullEnable
                     then [glEnable GL_CULL_FACE, glFrontFace frontFace, glCullFace cullFace]
                     else [glDisable GL_CULL_FACE]) @
                    [if ditherEnable then glEnable GL_DITHER else glDisable GL_DITHER]) w)"
| "PerformRenderCommand plat drv UNKNOWN_RENDER_COMMAND (ps, w) = Inl Crash"

definition PerformRenderPass :: "Platform \<Rightarrow> GLDriver \<Rightarrow> GLRStep \<Rightarrow> World \<Rightarrow> error + World" where
  "PerformRenderPass plat drv step w =
     (if commands step = [] then Inr w
      else
        (case PerformBindFramebufferAsRenderTarget step w of
           Inl e \<Rightarrow> Inl e
         | Inr w1 \<Rightarrow>
             (let w2 = emit [glEnable GL_SCISSOR_TEST, glBindVertexArray (globalVAO w1),
                             glBindBuffer GL_ARRAY_BUFFER 0,
                             glBindBuffer GL_ELEMENT_ARRAY_BUFFER 0] w1;
                  ps0 = \<lparr>curProgram = None, activeTexture = GL_TEXTURE0, attrMask = 0\<rparr>
              in case forEach (PerformRenderCommand plat drv) (commands step) (ps0, w2) of
                   Inl e \<Rightarrow> Inl e
                 | Inr (ps, w3) \<Rightarrow>
                     Inr (emit (disableAttribs (attrMask ps) @
                                (if activeTexture ps \<noteq> GL_TEXTURE0
                                 then [glActiveTexture GL_TEXTURE0] else []) @
                                [glBindBuffer GL_ARRAY_BUFFER 0,
                                 glBindBuffer GL_ELEMENT_ARRAY_BUFFER 0,
                                 glBindVertexArray 0,
                                 glDisable GL_SCISSOR_TEST]) w3))))"

subsection \<open>Transfers\<close>

text \<open>
  The region copy goes through the entry point that the build and the capability flags
  select; with none of them, no call is made.
\<close>

definition CopyImageSubData :: "Platform \<Rightarrow> val list \<Rightarrow> call list" where
  "CopyImageSubData plat args =
     (if USING_GLES2 plat then
        (if \<not> IOS plat then [glCopyImageSubDataOES args] else [])
      else if ARB_copy_image plat then [glCopyImageSubData args]
      else if NV_copy_image plat then [glCopyImageSubDataNV args]
      else [])"

definition PerformCopy :: "Platform \<Rightarrow> GLRStep \<Rightarrow> World \<Rightarrow> error + World" where
  "PerformCopy plat step w =
     (let srcRect = copy_srcRect step;
          dstPos = copy_dstPos step;
          src = copy_src step;
          dst = copy_src step;
          srcLevel = 0; dstLevel = 0; srcZ = 0; dstZ = 0; depth = 1
      in case
           (if copy_aspectMask step = GL_COLOR_BUFFER_BIT then
              (case deref (framebuffers w) src of
                 Inl e \<Rightarrow> Inl e
               | Inr (a, srcFb) \<Rightarrow>
                   (case deref (framebuffers w) dst of
                      Inl e \<Rightarrow> Inl e
                    | Inr (b, dstFb) \<Rightarrow>
                        Inr (color_texture srcFb, color_texture dstFb, GL_TEXTURE_2D)))
            else if copy_aspectMask step = GL_DEPTH_BUFFER_BIT then
              (case deref (framebuffers w) src of
                 Inl e \<Rightarrow> Inl e
               | Inr (a, srcFb) \<Rightarrow>
                   Inr (depth_texture srcFb, depth_texture srcFb, GL_RENDERBUFFER))
            else Inr (0, 0, GL_TEXTURE_2D))
         of
           Inl e \<Rightarrow> Inl e
         | Inr (srcTex, dstTex, tgt) \<Rightarrow>
             Inr (emit (CopyImageSubData plat
                    (copyImageArgs
                       srcTex tgt srcLevel (rc_x srcRect) (rc_y srcRect) srcZ
                       dstTex tgt dstLevel (off_x dstPos) (off_y dstPos) dstZ
                       (rc_w srcRect) (rc_h srcRect) depth)) w))"

definition PerformBlit :: "GLRStep \<Rightarrow> World \<Rightarrow> error + World" where
  "PerformBlit step w = Inr w"

definition PerformReadback :: "GLRStep \<Rightarrow> World \<Rightarrow> error + World" where
  "PerformReadback pass w = Inr w"

definition PerformReadbackImage :: "GLRStep \<Rightarrow> World \<Rightarrow> error + World" where
  "PerformReadbackImage pass w = Inr w"

text \<open>The body of the loop of \<open>RunSteps\<close>, for the step at index \<open>i\<close>.\<close>

definition RunStep :: "Platform \<Rightarrow> GLDriver \<Rightarrow> nat \<times> GLRStep \<Rightarrow> World \<Rightarrow> error + World" where
  "RunStep plat drv istep w =
     (case (case stepType (snd istep) of
              RENDER \<Rightarrow> PerformRenderPass plat drv (snd istep) w
            | COPY \<Rightarrow> PerformCopy plat (snd istep) w
            | BLIT \<Rightarrow> PerformBlit (snd istep) w
            | READBACK \<Rightarrow> PerformReadback (snd istep) w
            | READBACK_IMAGE \<Rightarrow> PerformReadbackImage (snd istep) w
            | UNKNOWN_STEP \<Rightarrow> Inl Crash) of
        Inl e \<Rightarrow> Inl e
      | Inr w1 \<Rightarrow> Inr (emit [DeleteStep (fst istep)] w1))"

definition RunSteps :: "Platform \<Rightarrow> GLDriver \<Rightarrow> GLRStep list \<Rightarrow> World \<Rightarrow> error + World" where
  "RunSteps plat drv steps w = forEach (RunStep plat drv) (zip [0 ..< length steps] steps) w"

subsection \<open>Reading a trace\<close>

text \<open>\<open>isCall name c\<close>: \<open>c\<close> is a call of the driver function \<open>name\<close>.\<close>

definition isCall :: "string \<Rightarrow> call \<Rightarrow> bool" where
  "isCall name c = (case c of GL n args \<Rightarrow> n = name | _ \<Rightarrow> False)"

text \<open>An indexed draw command that asks for exactly one instance.\<close>

definition drawsOneInstance :: "GLRRenderData \<Rightarrow> bool" where
  "drawsOneInstance c =
     (case c of DRAW_INDEXED mode cnt instances indexType indices \<Rightarrow> instances = 1
      | _ \<Rightarrow> False)"

subsection \<open>Concrete inputs\<close>

text \<open>
  A desktop build with the \<open>ARB_copy_image\<close> capability; a driver that hands out the
  names 1, 2, 3, ... and reports every compile and every link as failed; and a state
  with a few resource records: a shader at address 1, a buffer at 2, two framebuffers at
  3 and 4 (the one at 3 is 200 high), input layouts at 5 and 6. The default target is
  200 high and no framebuffer is current.
\<close>

definition examplePlatform :: Platform where
  "examplePlatform =
     \<lparr>USING_GLES2 = False, IOS = False, WIN32 = False, VersionGEThan_3_3_0 = True,
      GLES3 = False, ARB_copy_image = True, NV_copy_image = False,
      GPU_SUPPORTS_DUALSOURCE_BLEND = False\<rparr>"

definition exampleDriver :: GLDriver where
  "exampleDriver =
     \<lparr>freshName = (\<lambda>k. word_of_nat (k + 1)),
      maxTextureMaxAnisotropy = 16,
      compileStatus = (\<lambda>sh. 0),
      shaderInfoLog = (\<lambda>sh. ''syntax error''),
      linkStatus = (\<lambda>prog. GL_FALSE),
      programInfoLogLength = (\<lambda>prog. 0),
      programInfoLog = (\<lambda>prog. []),
      uniformLocation = (\<lambda>prog name. - 1),
      GetUniformLoc = (\<lambda>prog name. - 1)\<rparr>"

definition exampleWorld :: World where
  "exampleWorld =
     \<lparr>nameCache = [], globalVAO = 1, maxAnisotropyLevel = 16, curFramebuffer = None,
      curFBWidth = 0, curFBHeight = 0, targetWidth = 480, targetHeight = 200,
      textures = Map.empty,
      buffers = [2 \<mapsto> \<lparr>buffer = 7, buffer_target = GL_ARRAY_BUFFER\<rparr>],
      shaders = [1 \<mapsto> \<lparr>shader = 0, valid = False\<rparr>],
      programs = Map.empty,
      inputLayouts = [5 \<mapsto> \<lparr>semanticsMask = 0x80, entries = []\<rparr>,
                      6 \<mapsto> \<lparr>semanticsMask = 6, entries = []\<rparr>],
      framebuffers = [3 \<mapsto> \<lparr>width = 320, height = 200, color_texture = 11, depth_texture = 12\<rparr>,
                      4 \<mapsto> \<lparr>width = 64, height = 64, color_texture = 21, depth_texture = 22\<rparr>],
      ints = Map.empty,
      trace = [],
      namesIssued = 0\<rparr>"

definition renderPass :: "ptr \<Rightarrow> GLRRenderData list \<Rightarrow> GLRStep" where
  "renderPass fb cmds =
     \<lparr>stepType = RENDER, commands = cmds, render_framebuffer = fb,
      copy_src = None, copy_dst = None,
      copy_srcRect = \<lparr>rc_x = 0, rc_y = 0, rc_w = 0, rc_h = 0\<rparr>,
      copy_dstPos = \<lparr>off_x = 0, off_y = 0\<rparr>,
      copy_aspectMask = 0\<rparr>"

definition copyStep :: "ptr \<Rightarrow> ptr \<Rightarrow> 32 word \<Rightarrow> GLRStep" where
  "copyStep src dst aspect =
     \<lparr>stepType = COPY, commands = [], render_framebuffer = None,
      copy_src = src, copy_dst = dst,
      copy_srcRect = \<lparr>rc_x = 0, rc_y = 0, rc_w = 64, rc_h = 64\<rparr>,
      copy_dstPos = \<lparr>off_x = 0, off_y = 0\<rparr>,
      copy_aspectMask = aspect\<rparr>"

definition exampleViewport :: GLRViewport where
  "exampleViewport = \<lparr>vp_x = 0, vp_y = 10, vp_w = 100, vp_h = 50, vp_minZ = 0, vp_maxZ = 1\<rparr>"

definition exampleRect :: GLRect2D where
  "exampleRect = \<lparr>rc_x = 0, rc_y = 10, rc_w = 100, rc_h = 50\<rparr>"

definition initialPassState :: PassState where
  "initialPassState = \<lparr>curProgram = None, activeTexture = GL_TEXTURE0, attrMask = 0\<rparr>"

section \<open>Properties\<close>

subsection \<open>Traces and loops\<close>

lemmas gl_call_defs =
  glGetFloatv_def glGenVertexArrays_def glDeleteVertexArrays_def glGenTextures_def
  glDeleteTextures_def glBindTexture_def glGenBuffers_def glBindBuffer_def glBufferData_def
  glBufferSubData_def glCreateProgram_def glAttachShader_def glBindAttribLocation_def
  glBindFragDataLocationIndexed_def glBindFragDataLocation_def
  glBindFragDataLocationIndexedEXT_def glLinkProgram_def glGetProgramiv_def
  glGetProgramInfoLog_def glUseProgram_def glGetUniformLocation_def glUniform1i_def
  glCreateShader_def glShaderSource_def glCompileShader_def glGetShaderiv_def
  glGetShaderInfoLog_def glDeleteShader_def glTexImage2D_def glTexParameteri_def
  glTexParameterf_def glEnable_def glDisable_def glBindVertexArray_def glDepthMask_def
  glDepthFunc_def glBlendEquationSeparate_def glBlendFuncSeparate_def glColorMask_def
  glClearDepthf_def glClearDepth_def glClearStencil_def glClear_def glBlendColor_def
  glViewport_def glDepthRange_def glScissor_def glUniform1f_def glUniform2fv_def
  glUniform3fv_def glUniform4fv_def glUniform1iv_def glUniform2iv_def glUniform3iv_def
  glUniform4iv_def glUniformMatrix4fv_def glStencilFunc_def glStencilOp_def glStencilMask_def
  glActiveTexture_def glEnableVertexAttribArray_def glDisableVertexAttribArray_def
  glVertexAttribPointer_def glGenerateMipmap_def glDrawArrays_def glDrawElements_def
  glFrontFace_def glCullFace_def glClearColor_Uint8x4ToFloat4_def glCopyImageSubDataOES_def
  glCopyImageSubData_def glCopyImageSubDataNV_def

lemma isCall_simps:
  "isCall name (GL n args) = (n = name)"
  "isCall name (DeleteArray p) = False"
  "isCall name (DeleteStep i) = False"
  "isCall name (ELOG fmt vs) = False"
  "isCall name (ILOG fmt vs) = False"
  "isCall name (OutputDebugStringUTF8 txt) = False"
  by (simp_all add: isCall_def)

lemma trace_emit: "trace (emit cs w) = trace w @ cs"
  by (simp add: emit_def)

lemma forEach_preserves:
  assumes "forEach body xs s = Inr s'"
    and "\<And>x t t'. body x t = Inr t' \<Longrightarrow> f t' = f t"
  shows "f s' = f s"
  using assms(1)
proof (induction xs arbitrary: s)
  case Nil
  then show ?case by simp
next
  case (Cons x xs)
  from Cons.prems obtain s1 where one: "body x s = Inr s1" and rest: "forEach body xs s1 = Inr s'"
    by (auto split: sum.splits)
  from Cons.IH [OF rest] assms(2) [OF one] show ?case by simp
qed

subsection \<open>Init steps\<close>

text \<open>A \<open>CREATE_SHADER\<close> step that returns leaves the shader marked valid.\<close>

lemma CREATE_SHADER_always_valid:
  assumes "RunInitStep plat drv (CREATE_SHADER shader_p stage code) w = Inr w'"
  shows "\<exists>a sh. shader_p = Some a \<and> shaders w' a = Some sh \<and> valid sh"
  using assms
  by (auto simp: Let_def genName_def emit_def deref_def
      split: sum.splits prod.splits if_splits option.splits)

text \<open>
  Claim C1, at a batch of one \<open>CREATE_SHADER\<close> step whose compile the driver reports as
  failed. The failure branch sets \<open>valid\<close> to false, and the statement after the branch
  sets it to true whatever the outcome: the shader record ends with \<open>valid\<close> true (and
  with the name of the shader that was deleted).
\<close>

theorem CREATE_SHADER_failed_compile_ends_valid:
  "compileStatus exampleDriver (freshName exampleDriver (namesIssued exampleWorld)) = 0 \<and>
   map_sum id (\<lambda>w. shaders w 1)
     (RunInitSteps examplePlatform exampleDriver
        [CREATE_SHADER (Some 1) GL_FRAGMENT_SHADER (Some 100)] exampleWorld) =
   Inr (Some \<lparr>shader = 1, valid = True\<rparr>)"
  by (simp add: RunInitSteps_def genName_def emit_def deref_def exampleWorld_def
      exampleDriver_def)

text \<open>
  Claim C7. A \<open>BUFFER_SUBDATA\<close> step on a buffer record that exists binds the buffer,
  uploads once, and then frees the payload once if \<open>deleteData\<close> is set; if it is not
  set, nothing is freed. The step adds these calls to the trace and changes nothing else.
\<close>

theorem BUFFER_SUBDATA_upload_then_free:
  assumes "deref (buffers w) buffer_p = Inr (a, buf)"
  shows "RunInitStep plat drv (BUFFER_SUBDATA buffer_p off sz dat deleteData) w =
           Inr (w\<lparr>trace := trace w @
                  [glBindBuffer GL_ARRAY_BUFFER (buffer buf),
                   glBufferSubData GL_ARRAY_BUFFER off sz dat] @
                  (if deleteData then [DeleteArray dat] else [])\<rparr>)"
  using assms by (simp add: emit_def)

theorem BUFFER_SUBDATA_upload_then_free_witness:
  "deref (buffers exampleWorld) (Some 2) =
     Inr (2, \<lparr>buffer = 7, buffer_target = GL_ARRAY_BUFFER\<rparr>) \<and>
   map_sum id trace (RunInitStep examplePlatform exampleDriver
      (BUFFER_SUBDATA (Some 2) 0 16 (Some 200) True) exampleWorld) =
     Inr [glBindBuffer GL_ARRAY_BUFFER 7, glBufferSubData GL_ARRAY_BUFFER 0 16 (Some 200),
          DeleteArray (Some 200)] \<and>
   map_sum id trace (RunInitStep examplePlatform exampleDriver
      (BUFFER_SUBDATA (Some 2) 0 16 (Some 200) False) exampleWorld) =
     Inr [glBindBuffer GL_ARRAY_BUFFER 7, glBufferSubData GL_ARRAY_BUFFER 0 16 (Some 200)]"
proof -
  have d: "deref (buffers exampleWorld) (Some 2) =
             Inr (2, \<lparr>buffer = 7, buffer_target = GL_ARRAY_BUFFER\<rparr>)"
    by (simp add: deref_def exampleWorld_def)
  have t: "trace exampleWorld = []" by (simp add: exampleWorld_def)
  show ?thesis
    using d t
      BUFFER_SUBDATA_upload_then_free [OF d, of examplePlatform exampleDriver 0 16 "Some 200" True]
      BUFFER_SUBDATA_upload_then_free [OF d, of examplePlatform exampleDriver 0 16 "Some 200" False]
    by simp
qed

subsection \<open>Render passes\<close>

text \<open>
  Claim C6. A render pass whose command list is empty makes no driver call and changes
  nothing: not the framebuffer dimensions, not any other member, not the trace. (The
  shadow state of a pass is local to \<open>PerformRenderPass\<close>; no other state holds it.)
\<close>

theorem PerformRenderPass_empty:
  "commands step = [] \<Longrightarrow> PerformRenderPass plat drv step w = Inr w"
  by (simp add: PerformRenderPass_def)

theorem PerformRenderPass_empty_witness:
  "commands (renderPass (Some 3) []) = [] \<and>
   PerformRenderPass examplePlatform exampleDriver (renderPass (Some 3) []) exampleWorld =
     Inr exampleWorld"
  using PerformRenderPass_empty
    [of "renderPass (Some 3) []" examplePlatform exampleDriver exampleWorld]
  by (simp add: renderPass_def)

text \<open>No function of the file assigns \<open>curFramebuffer\<close>.\<close>

lemma PerformRenderCommand_curFramebuffer:
  assumes "PerformRenderCommand plat drv c psw = Inr psw'"
  shows "curFramebuffer (snd psw') = curFramebuffer (snd psw)"
proof -
  obtain ps w ps' w' where e: "psw = (ps, w)" "psw' = (ps', w')"
    by (cases psw, cases psw')
  from assms show ?thesis
    unfolding e
    by (cases c) (auto simp: emit_def split: sum.splits prod.splits if_splits)
qed

lemma PerformRenderPass_curFramebuffer:
  assumes "PerformRenderPass plat drv step w = Inr w'"
  shows "curFramebuffer w' = curFramebuffer w"
proof (cases "commands step = []")
  case True
  with assms show ?thesis by (simp add: PerformRenderPass_def)
next
  case False
  from assms False obtain w1 ps w3 where
    bind: "PerformBindFramebufferAsRenderTarget step w = Inr w1" and
    run: "forEach (PerformRenderCommand plat drv) (commands step)
            (\<lparr>curProgram = None, activeTexture = GL_TEXTURE0, attrMask = 0\<rparr>,
             emit [glEnable GL_SCISSOR_TEST, glBindVertexArray (globalVAO w1),
                   glBindBuffer GL_ARRAY_BUFFER 0, glBindBuffer GL_ELEMENT_ARRAY_BUFFER 0] w1) =
          Inr (ps, w3)" and
    fin: "curFramebuffer w' = curFramebuffer w3"
    by (auto simp: PerformRenderPass_def Let_def emit_def split: sum.splits prod.splits)
  from bind have "curFramebuffer w1 = curFramebuffer w"
    by (auto simp: PerformBindFramebufferAsRenderTarget_def split: if_splits sum.splits prod.splits)
  moreover from forEach_preserves [OF run, of "\<lambda>psw. curFramebuffer (snd psw)"]
  have "curFramebuffer w3 = curFramebuffer w1"
    by (simp add: PerformRenderCommand_curFramebuffer emit_def)
  ultimately show ?thesis using fin by simp
qed

lemma attachShader_loop_curFramebuffer:
  "forEach (attachShader name shs) xs t = Inr t' \<Longrightarrow> curFramebuffer t' = curFramebuffer t"
  by (erule forEach_preserves)
     (auto simp: attachShader_def emit_def split: if_splits sum.splits prod.splits)

lemma runQuery_loop_curFramebuffer:
  "forEach (runQuery drv name) xs t = Inr t' \<Longrightarrow> curFramebuffer t' = curFramebuffer t"
  by (erule forEach_preserves)
     (auto simp: runQuery_def Let_def emit_def split: sum.splits prod.splits)

lemma runInitializer_loop_curFramebuffer:
  "forEach runInitializer xs t = Inr t' \<Longrightarrow> curFramebuffer t' = curFramebuffer t"
  by (erule forEach_preserves)
     (auto simp: runInitializer_def emit_def split: sum.splits prod.splits if_splits)

lemma RunInitStep_curFramebuffer:
  assumes "RunInitStep plat drv step w = Inr w'"
  shows "curFramebuffer w' = curFramebuffer w"
proof (cases step)
  case (CREATE_PROGRAM program_p shs num_shaders support_dual_source)
  from assms show ?thesis
    unfolding CREATE_PROGRAM
    by (auto simp: Let_def genName_def emit_def split: sum.splits prod.splits if_splits
        dest!: attachShader_loop_curFramebuffer runQuery_loop_curFramebuffer
          runInitializer_loop_curFramebuffer)
qed (use assms in \<open>auto simp: Let_def genName_def emit_def split: sum.splits prod.splits if_splits\<close>)

lemma curFramebuffer_never_assigned:
  "RunInitSteps plat drv isteps w = Inr w' \<Longrightarrow> curFramebuffer w' = curFramebuffer w"
  "RunSteps plat drv steps w = Inr w' \<Longrightarrow> curFramebuffer w' = curFramebuffer w"
  "curFramebuffer (snd (AllocTextureName drv w)) = curFramebuffer w"
  "curFramebuffer (CreateDeviceObjects drv w) = curFramebuffer w"
  "curFramebuffer (DestroyDeviceObjects w) = curFramebuffer w"
proof -
  show "RunInitSteps plat drv isteps w = Inr w' \<Longrightarrow> curFramebuffer w' = curFramebuffer w"
    unfolding RunInitSteps_def
    by (erule forEach_preserves) (rule RunInitStep_curFramebuffer)
  have copy: "PerformCopy plat step t = Inr t' \<Longrightarrow> curFramebuffer t' = curFramebuffer t"
    for step t t'
    by (auto simp: PerformCopy_def Let_def emit_def split: sum.splits prod.splits if_splits)
  have one: "RunStep plat drv istep t = Inr t' \<Longrightarrow> curFramebuffer t' = curFramebuffer t"
    for istep t t'
    by (auto simp: RunStep_def emit_def PerformBlit_def PerformReadback_def
          PerformReadbackImage_def
        split: sum.splits GLRStepType.splits
        dest: PerformRenderPass_curFramebuffer copy)
  show "RunSteps plat drv steps w = Inr w' \<Longrightarrow> curFramebuffer w' = curFramebuffer w"
    unfolding RunSteps_def
    by (erule forEach_preserves) (rule one)
  show "curFramebuffer (snd (AllocTextureName drv w)) = curFramebuffer w"
    by (simp add: AllocTextureName_def refillNameCache_def genNames_def emit_def Let_def
        split_def)
  show "curFramebuffer (CreateDeviceObjects drv w) = curFramebuffer w"
    by (simp add: CreateDeviceObjects_def genName_def emit_def Let_def)
  show "curFramebuffer (DestroyDeviceObjects w) = curFramebuffer w"
    by (simp add: DestroyDeviceObjects_def emit_def Let_def)
qed

text \<open>What decides the flip is \<open>curFramebuffer\<close>, not the target of the pass.\<close>

lemma VIEWPORT_SCISSOR_flip:
  "PerformRenderCommand plat drv (SCISSOR rc) (ps, w) =
     Inr (ps, emit [glScissor (rc_x rc)
                      (if curFramebuffer w = None then curFBHeight w - rc_y rc - rc_h rc
                       else rc_y rc)
                      (rc_w rc) (rc_h rc)] w)"
  "PerformRenderCommand plat drv (VIEWPORT vp) (ps, w) =
     Inr (ps, emit [glViewport (GLint_of_float (vp_x vp))
                      (GLint_of_float
                         (if curFramebuffer w = None
                          then float_of_int32 (curFBHeight w) - vp_y vp - vp_h vp
                          else vp_y vp))
                      (GLint_of_float (vp_w vp)) (GLint_of_float (vp_h vp)),
                    glDepthRange (vp_minZ vp) (vp_maxZ vp)] w)"
  by (simp_all add: Let_def)

text \<open>
  Claim C2, at a pass that targets the offscreen framebuffer at address 3, which is 200
  high, with the viewport and the scissor rectangle \<open>(x = 0, y = 10, w = 100, h = 50)\<close>.
  \<open>PerformBindFramebufferAsRenderTarget\<close> takes the dimensions of the framebuffer but
  does not make it the current one, and the \<open>VIEWPORT\<close> and \<open>SCISSOR\<close> cases test the
  current one, which is null here as in every state that the functions of the file can
  reach from one where it is null (\<open>curFramebuffer_never_assigned\<close>): both calls get
  \<open>y = 200 - 10 - 50 = 140\<close>, where the claim has 10.
\<close>

theorem offscreen_pass_flips_viewport_and_scissor:
  "render_framebuffer (renderPass (Some 3) [VIEWPORT exampleViewport, SCISSOR exampleRect]) =
     Some 3 \<and>
   map_option height (framebuffers exampleWorld 3) = Some 200 \<and>
   map_sum id trace
     (PerformRenderPass examplePlatform exampleDriver
        (renderPass (Some 3) [VIEWPORT exampleViewport, SCISSOR exampleRect]) exampleWorld) =
   Inr [glEnable GL_SCISSOR_TEST, glBindVertexArray 1,
        glBindBuffer GL_ARRAY_BUFFER 0, glBindBuffer GL_ELEMENT_ARRAY_BUFFER 0,
        glViewport 0 140 100 50, glDepthRange 0 1,
        glScissor 0 140 100 50,
        glBindBuffer GL_ARRAY_BUFFER 0, glBindBuffer GL_ELEMENT_ARRAY_BUFFER 0,
        glBindVertexArray 0, glDisable GL_SCISSOR_TEST]"
  by (simp add: PerformRenderPass_def PerformBindFramebufferAsRenderTarget_def renderPass_def
      deref_def emit_def exampleWorld_def exampleViewport_def exampleRect_def disableAttribs_def
      SEM_MAX_def GL_TEXTURE0_def float_of_int32_def GLint_of_float_def upt_rec)

text \<open>
  The active-texture call of a \<open>BINDTEXTURE\<close> command depends on the shadow variable,
  whose first value in a pass is \<open>GL_TEXTURE0 = 0x84C0\<close>.
\<close>

lemma BINDTEXTURE_calls:
  "PerformRenderCommand plat drv (BINDTEXTURE slot None) (ps, w) =
     Inr (ps\<lparr>activeTexture := slot\<rparr>,
          emit ((if slot \<noteq> activeTexture ps then [glActiveTexture (GL_TEXTURE0 + slot)] else []) @
                [glBindTexture GL_TEXTURE_2D 0]) w)"
  "deref (textures w) (Some a) = Inr (a, tex) \<Longrightarrow>
   PerformRenderCommand plat drv (BINDTEXTURE slot (Some a)) (ps, w) =
     Inr (ps\<lparr>activeTexture := slot\<rparr>,
          emit ((if slot \<noteq> activeTexture ps then [glActiveTexture (GL_TEXTURE0 + slot)] else []) @
                [glBindTexture (target tex) (texture tex)]) w)"
  by (auto simp: emit_def)

text \<open>
  Claim C3, at a pass whose only command binds no texture to slot 0. The shadow variable
  \<open>activeTexture\<close> starts as the enumerator \<open>GL_TEXTURE0\<close>, is compared with the slot
  index and then holds slot indices: the command switches the active texture (to
  \<open>GL_TEXTURE0 + 0\<close>) although slot 0 is requested first, and the end of the pass
  switches again. The bind call follows, with handle 0 for the null texture.
\<close>

theorem BINDTEXTURE_slot_0_switches_slot:
  "map_sum id trace
     (PerformRenderPass examplePlatform exampleDriver
        (renderPass None [BINDTEXTURE 0 None]) exampleWorld) =
   Inr [glEnable GL_SCISSOR_TEST, glBindVertexArray 1,
        glBindBuffer GL_ARRAY_BUFFER 0, glBindBuffer GL_ELEMENT_ARRAY_BUFFER 0,
        glActiveTexture (GL_TEXTURE0 + 0), glBindTexture GL_TEXTURE_2D 0,
        glActiveTexture GL_TEXTURE0,
        glBindBuffer GL_ARRAY_BUFFER 0, glBindBuffer GL_ELEMENT_ARRAY_BUFFER 0,
        glBindVertexArray 0, glDisable GL_SCISSOR_TEST]"
  by (simp add: PerformRenderPass_def PerformBindFramebufferAsRenderTarget_def renderPass_def
      deref_def emit_def exampleWorld_def disableAttribs_def
      SEM_MAX_def GL_TEXTURE0_def upt_rec)

subsection \<open>Input layouts\<close>

lemma attrib_call_eq:
  "glEnableVertexAttribArray a = glEnableVertexAttribArray b \<longleftrightarrow> a = b"
  "glDisableVertexAttribArray a = glDisableVertexAttribArray b \<longleftrightarrow> a = b"
  "glEnableVertexAttribArray a \<noteq> glDisableVertexAttribArray b"
  "glDisableVertexAttribArray a \<noteq> glEnableVertexAttribArray b"
  by (simp_all add: glEnableVertexAttribArray_def glDisableVertexAttribArray_def)

lemma and_push_bit_1: "(m :: 32 word) AND push_bit i 1 \<noteq> 0 \<longleftrightarrow> bit m i"
  by (simp add: and_exp_eq_0_iff_not_bit)

lemma slot_of_nat: "i < 2 ^ 32 \<Longrightarrow> (word_of_nat i :: 32 word) = s \<longleftrightarrow> i = unat s"
  by (auto simp: unat_of_nat)

lemma count_toggleAttrib:
  "i < 2 ^ 32 \<Longrightarrow>
   count_list (toggleAttrib e d i) (glEnableVertexAttribArray s) =
     (if i = unat s \<and> bit e i then 1 else 0)"
  "i < 2 ^ 32 \<Longrightarrow>
   count_list (toggleAttrib e d i) (glDisableVertexAttribArray s) =
     (if i = unat s \<and> bit d i then 1 else 0)"
  by (auto simp: toggleAttrib_def attrib_call_eq and_push_bit_1 slot_of_nat
      simp del: push_bit_of_1)

text \<open>The toggles for an arbitrary list of slot indices.\<close>

lemma count_enable_in_toggles:
  assumes "distinct sl" and "\<forall>i\<in>set sl. i < 2 ^ 32"
  shows "count_list (concat (map (toggleAttrib e d) sl)) (glEnableVertexAttribArray s) =
         (if unat s \<in> set sl \<and> bit e (unat s) then 1 else 0)"
  using assms
  by (induction sl) (auto simp: count_toggleAttrib)

lemma count_disable_in_toggles:
  assumes "distinct sl" and "\<forall>i\<in>set sl. i < 2 ^ 32"
  shows "count_list (concat (map (toggleAttrib e d) sl)) (glDisableVertexAttribArray s) =
         (if unat s \<in> set sl \<and> bit d (unat s) then 1 else 0)"
  using assms
  by (induction sl) (auto simp: count_toggleAttrib)

lemma slot_less_7: "unat (s :: 32 word) < 7 \<longleftrightarrow> s < 7"
  by (simp add: word_less_nat_alt)

lemma count_toggleAttribs:
  "count_list (toggleAttribs e d) (glEnableVertexAttribArray s) =
     (if s < 7 \<and> bit e (unat s) then 1 else 0)"
  "count_list (toggleAttribs e d) (glDisableVertexAttribArray s) =
     (if s < 7 \<and> bit d (unat s) then 1 else 0)"
  unfolding toggleAttribs_def SEM_MAX_def
  by (simp_all add: count_enable_in_toggles count_disable_in_toggles slot_less_7)

lemma count_vertexAttribPointers:
  "count_list (vertexAttribPointers off es) (glEnableVertexAttribArray s) = 0"
  "count_list (vertexAttribPointers off es) (glDisableVertexAttribArray s) = 0"
  by (induction es)
     (simp_all add: vertexAttribPointers_def glVertexAttribPointer_def
        glEnableVertexAttribArray_def glDisableVertexAttribArray_def)

lemma bit_enable_mask:
  "s < 7 \<Longrightarrow> bit ((n :: 32 word) AND NOT m) (unat s) \<longleftrightarrow> bit n (unat s) \<and> \<not> bit m (unat s)"
  by (auto simp: bit_and_iff bit_not_iff dest: bit_imp_le_length)

text \<open>
  Claim C5, amended. The loop that enables and disables attributes covers the slots
  \<open>0, ..., 6\<close> only. With \<open>N\<close> the mask of the layout and \<open>M\<close> the shadow mask, the
  command makes exactly one enable call for each slot below 7 that is in \<open>N\<close> and not
  in \<open>M\<close>, exactly one disable call for each slot below 7 that is in \<open>M\<close> and not in
  \<open>N\<close>, and no other enable or disable call: none for a slot in both masks or in
  neither, and none for a slot from 7 on, whatever the masks. The shadow mask becomes
  \<open>N\<close>. From \<open>0b0011\<close> to \<open>0b0110\<close> it disables slot 0 and enables slot 2.
\<close>

theorem BIND_INPUT_LAYOUT_toggles:
  assumes "deref (inputLayouts w) layout_p = Inr (a, layout)"
  shows "PerformRenderCommand plat drv (BIND_INPUT_LAYOUT layout_p off) (ps, w) =
           Inr (ps\<lparr>attrMask := semanticsMask layout\<rparr>,
                emit (toggleAttribs (semanticsMask layout AND NOT (attrMask ps))
                        (NOT (semanticsMask layout) AND attrMask ps) @
                      vertexAttribPointers off (entries layout)) w) \<and>
         (\<forall>s. count_list
                (toggleAttribs (semanticsMask layout AND NOT (attrMask ps))
                   (NOT (semanticsMask layout) AND attrMask ps) @
                 vertexAttribPointers off (entries layout))
                (glEnableVertexAttribArray s) =
              (if s < 7 \<and> bit (semanticsMask layout) (unat s) \<and> \<not> bit (attrMask ps) (unat s)
               then 1 else 0)) \<and>
         (\<forall>s. count_list
                (toggleAttribs (semanticsMask layout AND NOT (attrMask ps))
                   (NOT (semanticsMask layout) AND attrMask ps) @
                 vertexAttribPointers off (entries layout))
                (glDisableVertexAttribArray s) =
              (if s < 7 \<and> bit (attrMask ps) (unat s) \<and> \<not> bit (semanticsMask layout) (unat s)
               then 1 else 0))"
proof -
  have run: "PerformRenderCommand plat drv (BIND_INPUT_LAYOUT layout_p off) (ps, w) =
           Inr (ps\<lparr>attrMask := semanticsMask layout\<rparr>,
                emit (toggleAttribs (semanticsMask layout AND NOT (attrMask ps))
                        (NOT (semanticsMask layout) AND attrMask ps) @
                      vertexAttribPointers off (entries layout)) w)"
    using assms by (simp add: Let_def)
  have dis: "NOT n AND m = m AND NOT n" for n m :: "32 word"
    by (simp add: and.commute)
  show ?thesis
    using run
    by (auto simp: count_toggleAttribs count_vertexAttribPointers bit_enable_mask dis)
qed

theorem BIND_INPUT_LAYOUT_toggles_witness:
  "deref (inputLayouts exampleWorld) (Some 6) = Inr (6, \<lparr>semanticsMask = 6, entries = []\<rparr>) \<and>
   map_sum id (\<lambda>(ps, w). (attrMask ps, trace w))
     (PerformRenderCommand examplePlatform exampleDriver (BIND_INPUT_LAYOUT (Some 6) 0)
        (initialPassState\<lparr>attrMask := 3\<rparr>, exampleWorld)) =
   Inr (6, [glDisableVertexAttribArray 0, glEnableVertexAttribArray 2])"
proof -
  have d: "deref (inputLayouts exampleWorld) (Some 6) =
             Inr (6, \<lparr>semanticsMask = 6, entries = []\<rparr>)"
    by (simp add: deref_def exampleWorld_def)
  have t: "trace exampleWorld = []" by (simp add: exampleWorld_def)
  have g: "toggleAttribs 4 1 = [glDisableVertexAttribArray 0, glEnableVertexAttribArray 2]"
    by (simp add: toggleAttribs_def toggleAttrib_def SEM_MAX_def upt_rec)
  from BIND_INPUT_LAYOUT_toggles [OF d, where plat = examplePlatform and drv = exampleDriver
      and off = 0 and ps = "initialPassState\<lparr>attrMask := 3\<rparr>"]
  show ?thesis
    using d by (simp add: g t trace_emit vertexAttribPointers_def)
qed

text \<open>
  Claim C5 as stated fails for slot 7: with the layout mask \<open>0x80\<close> and the shadow mask
  0, slot 7 is in the new mask and not in the old one, and the command makes no call: it
  returns the state as it was.
\<close>

theorem BIND_INPUT_LAYOUT_slot_7_not_enabled:
  "inputLayouts exampleWorld 5 = Some \<lparr>semanticsMask = 0x80, entries = []\<rparr> \<and>
   bit (0x80 :: 32 word) 7 \<and> \<not> bit (attrMask initialPassState) 7 \<and>
   PerformRenderCommand examplePlatform exampleDriver (BIND_INPUT_LAYOUT (Some 5) 0)
     (initialPassState, exampleWorld) =
   Inr (initialPassState\<lparr>attrMask := 0x80\<rparr>, exampleWorld)"
  by (simp add: deref_def exampleWorld_def initialPassState_def toggleAttribs_def
      toggleAttrib_def SEM_MAX_def upt_rec vertexAttribPointers_def emit_def)

subsection \<open>Indexed draws\<close>

lemma toggleAttribs_no_draw:
  "filter (isCall ''glDrawElements'') (toggleAttribs e d) = []"
  by (simp add: toggleAttribs_def toggleAttrib_def filter_concat isCall_simps
      glEnableVertexAttribArray_def glDisableVertexAttribArray_def comp_def)

lemma disableAttribs_no_draw:
  "filter (isCall ''glDrawElements'') (disableAttribs m) = []"
  by (simp add: disableAttribs_def filter_concat isCall_simps
      glDisableVertexAttribArray_def comp_def)

lemma vertexAttribPointers_no_draw:
  "filter (isCall ''glDrawElements'') (vertexAttribPointers off es) = []"
  by (simp add: vertexAttribPointers_def isCall_simps glVertexAttribPointer_def comp_def)

lemma PerformRenderCommand_draws:
  assumes "PerformRenderCommand plat drv c (ps, w) = Inr (ps', w')"
  shows "length (filter (isCall ''glDrawElements'') (trace w')) =
         length (filter (isCall ''glDrawElements'') (trace w)) +
         (if drawsOneInstance c then 1 else 0)"
  using assms
  by (cases c)
     (auto simp: trace_emit isCall_simps drawsOneInstance_def gl_call_defs
        toggleAttribs_no_draw vertexAttribPointers_no_draw
        split: sum.splits prod.splits if_splits)

lemma forEach_PerformRenderCommand_draws:
  "forEach (PerformRenderCommand plat drv) cs (ps, w) = Inr (ps', w') \<Longrightarrow>
   length (filter (isCall ''glDrawElements'') (trace w')) =
   length (filter (isCall ''glDrawElements'') (trace w)) +
   length (filter drawsOneInstance cs)"
proof (induction cs arbitrary: ps w)
  case Nil
  then show ?case by simp
next
  case (Cons c cs)
  from Cons.prems obtain ps1 w1 where
    one: "PerformRenderCommand plat drv c (ps, w) = Inr (ps1, w1)" and
    rest: "forEach (PerformRenderCommand plat drv) cs (ps1, w1) = Inr (ps', w')"
    by (auto split: sum.splits)
  from PerformRenderCommand_draws [OF one] Cons.IH [OF rest]
  show ?case by simp
qed

lemma PerformRenderPass_draws:
  assumes "PerformRenderPass plat drv step w = Inr w'"
  shows "length (filter (isCall ''glDrawElements'') (trace w')) =
         length (filter (isCall ''glDrawElements'') (trace w)) +
         length (filter drawsOneInstance (commands step))"
proof (cases "commands step = []")
  case True
  with assms show ?thesis by (simp add: PerformRenderPass_def)
next
  case False
  let ?pre = "[glEnable GL_SCISSOR_TEST, glBindVertexArray (globalVAO w),
               glBindBuffer GL_ARRAY_BUFFER 0, glBindBuffer GL_ELEMENT_ARRAY_BUFFER 0]"
  from assms False obtain w1 ps w3 where
    bind: "PerformBindFramebufferAsRenderTarget step w = Inr w1" and
    run: "forEach (PerformRenderCommand plat drv) (commands step)
            (\<lparr>curProgram = None, activeTexture = GL_TEXTURE0, attrMask = 0\<rparr>,
             emit [glEnable GL_SCISSOR_TEST, glBindVertexArray (globalVAO w1),
                   glBindBuffer GL_ARRAY_BUFFER 0, glBindBuffer GL_ELEMENT_ARRAY_BUFFER 0] w1) =
          Inr (ps, w3)" and
    fin: "w' = emit (disableAttribs (attrMask ps) @
                     (if activeTexture ps \<noteq> GL_TEXTURE0 then [glActiveTexture GL_TEXTURE0] else []) @
                     [glBindBuffer GL_ARRAY_BUFFER 0, glBindBuffer GL_ELEMENT_ARRAY_BUFFER 0,
                      glBindVertexArray 0, glDisable GL_SCISSOR_TEST]) w3"
    by (auto simp: PerformRenderPass_def Let_def split: sum.splits prod.splits)
  from bind have t1: "trace w1 = trace w"
    by (auto simp: PerformBindFramebufferAsRenderTarget_def split: if_splits sum.splits prod.splits)
  from forEach_PerformRenderCommand_draws [OF run] t1
  have "length (filter (isCall ''glDrawElements'') (trace w3)) =
        length (filter (isCall ''glDrawElements'') (trace w)) +
        length (filter drawsOneInstance (commands step))"
    by (simp add: trace_emit isCall_simps gl_call_defs)
  then show ?thesis
    unfolding fin
    by (simp add: trace_emit isCall_simps disableAttribs_no_draw glActiveTexture_def
        glBindBuffer_def glBindVertexArray_def glDisable_def)
qed

text \<open>
  Claim C8. A \<open>DRAW_INDEXED\<close> command never fails; it adds one \<open>glDrawElements\<close> call
  to the trace if its instance count is 1, and otherwise adds nothing and changes
  nothing. Over a whole pass that returns, the number of \<open>glDrawElements\<close> calls is the
  number of indexed draw commands with instance count 1: no other command and no other
  part of the pass makes that call.
\<close>

theorem DRAW_INDEXED_single_instance_only:
  "PerformRenderCommand plat drv (DRAW_INDEXED mode cnt instances indexType indices) (ps, w) =
     Inr (ps, w\<lparr>trace := trace w @
                 (if instances = 1 then [glDrawElements mode cnt indexType indices] else [])\<rparr>) \<and>
   (PerformRenderPass plat drv step w = Inr w' \<longrightarrow>
      length (filter (isCall ''glDrawElements'') (trace w')) =
      length (filter (isCall ''glDrawElements'') (trace w)) +
      length (filter drawsOneInstance (commands step)))"
  using PerformRenderPass_draws [of plat drv step w w'] by (simp add: emit_def)

theorem DRAW_INDEXED_single_instance_only_witness:
  "map_sum id (\<lambda>w'. filter (isCall ''glDrawElements'') (trace w'))
     (PerformRenderPass examplePlatform exampleDriver
        (renderPass None [DRAW_INDEXED 4 6 2 0x1403 None, DRAW_INDEXED 4 3 1 0x1403 None])
        exampleWorld) =
   Inr [glDrawElements 4 3 0x1403 None] \<and>
   map_sum id (\<lambda>w'. length (filter (isCall ''glDrawElements'') (trace w')))
     (PerformRenderPass examplePlatform exampleDriver
        (renderPass None [DRAW_INDEXED 4 6 2 0x1403 None, DRAW_INDEXED 4 3 1 0x1403 None])
        exampleWorld) =
   Inr 1"
proof -
  let ?step = "renderPass None [DRAW_INDEXED 4 6 2 0x1403 None, DRAW_INDEXED 4 3 1 0x1403 None]"
  have ex: "\<exists>w'. PerformRenderPass examplePlatform exampleDriver ?step exampleWorld = Inr w'"
    by (simp add: PerformRenderPass_def PerformBindFramebufferAsRenderTarget_def renderPass_def)
  then obtain w' where
    run: "PerformRenderPass examplePlatform exampleDriver ?step exampleWorld = Inr w'" ..
  have t: "trace exampleWorld = []" by (simp add: exampleWorld_def)
  have c: "commands ?step = [DRAW_INDEXED 4 6 2 0x1403 None, DRAW_INDEXED 4 3 1 0x1403 None]"
    by (simp add: renderPass_def)
  from DRAW_INDEXED_single_instance_only
         [where plat = examplePlatform and drv = exampleDriver and step = ?step
            and w = exampleWorld and w' = w'] run
  have n: "length (filter (isCall ''glDrawElements'') (trace w')) = 1"
    by (simp add: t c drawsOneInstance_def)
  have f: "map_sum id (\<lambda>w'. filter (isCall ''glDrawElements'') (trace w'))
             (PerformRenderPass examplePlatform exampleDriver ?step exampleWorld) =
           Inr [glDrawElements 4 3 0x1403 None]"
    by (simp add: PerformRenderPass_def PerformBindFramebufferAsRenderTarget_def renderPass_def
        emit_def exampleWorld_def disableAttribs_def SEM_MAX_def GL_TEXTURE0_def upt_rec
        isCall_simps gl_call_defs)
  from n run f show ?thesis by simp
qed

subsection \<open>Copy steps\<close>

lemma PerformCopy_ignores_copy_dst:
  "PerformCopy plat (step\<lparr>copy_dst := d\<rparr>) w = PerformCopy plat step w"
  by (simp add: PerformCopy_def Let_def)

lemma PerformCopy_depth_aspect:
  assumes "copy_aspectMask step = GL_DEPTH_BUFFER_BIT"
    and "deref (framebuffers w) (copy_src step) = Inr (a, srcFb)"
  shows "PerformCopy plat step w =
           Inr (emit (CopyImageSubData plat
                  (copyImageArgs
                     (depth_texture srcFb) GL_RENDERBUFFER 0
                     (rc_x (copy_srcRect step)) (rc_y (copy_srcRect step)) 0
                     (depth_texture srcFb) GL_RENDERBUFFER 0
                     (off_x (copy_dstPos step)) (off_y (copy_dstPos step)) 0
                     (rc_w (copy_srcRect step)) (rc_h (copy_srcRect step)) 1)) w)"
  using assms
  by (simp add: PerformCopy_def Let_def GL_DEPTH_BUFFER_BIT_def GL_COLOR_BUFFER_BIT_def)

lemma PerformCopy_color_aspect:
  assumes "copy_aspectMask step = GL_COLOR_BUFFER_BIT"
    and "deref (framebuffers w) (copy_src step) = Inr (a, srcFb)"
  shows "PerformCopy plat step w =
           Inr (emit (CopyImageSubData plat
                  (copyImageArgs
                     (color_texture srcFb) GL_TEXTURE_2D 0
                     (rc_x (copy_srcRect step)) (rc_y (copy_srcRect step)) 0
                     (color_texture srcFb) GL_TEXTURE_2D 0
                     (off_x (copy_dstPos step)) (off_y (copy_dstPos step)) 0
                     (rc_w (copy_srcRect step)) (rc_h (copy_srcRect step)) 1)) w)"
  using assms
  by (simp add: PerformCopy_def Let_def)

lemma PerformCopy_other_records:
  assumes "\<forall>a. copy_src step = Some a \<longrightarrow> fbs a = framebuffers w a"
  shows "PerformCopy plat step (w\<lparr>framebuffers := fbs\<rparr>) =
           map_sum id (\<lambda>w'. w'\<lparr>framebuffers := fbs\<rparr>) (PerformCopy plat step w)"
proof -
  have "deref fbs (copy_src step) = deref (framebuffers w) (copy_src step)"
    using assms by (cases "copy_src step") (simp_all add: deref_def)
  then show ?thesis
    by (simp add: PerformCopy_def Let_def emit_def split: sum.splits)
qed

text \<open>
  Claim C4. For a Copy step with the depth aspect whose source framebuffer exists, the
  destination name in the region copy is the depth texture of the source framebuffer,
  as is the source name, whatever the step's destination pointer \<open>d\<close> is.
\<close>

theorem PerformCopy_depth_destination_is_source:
  assumes "copy_aspectMask step = GL_DEPTH_BUFFER_BIT"
    and "deref (framebuffers w) (copy_src step) = Inr (a, srcFb)"
  shows "PerformCopy plat (step\<lparr>copy_dst := d\<rparr>) w =
           Inr (emit (CopyImageSubData plat
                  (copyImageArgs
                     (depth_texture srcFb) GL_RENDERBUFFER 0
                     (rc_x (copy_srcRect step)) (rc_y (copy_srcRect step)) 0
                     (depth_texture srcFb) GL_RENDERBUFFER 0
                     (off_x (copy_dstPos step)) (off_y (copy_dstPos step)) 0
                     (rc_w (copy_srcRect step)) (rc_h (copy_srcRect step)) 1)) w)"
  using PerformCopy_depth_aspect [OF assms] by (simp add: PerformCopy_ignores_copy_dst)

theorem PerformCopy_depth_destination_is_source_witness:
  "copy_aspectMask (copyStep (Some 3) (Some 4) GL_DEPTH_BUFFER_BIT) = GL_DEPTH_BUFFER_BIT \<and>
   deref (framebuffers exampleWorld) (copy_src (copyStep (Some 3) (Some 4) GL_DEPTH_BUFFER_BIT)) =
     Inr (3, \<lparr>width = 320, height = 200, color_texture = 11, depth_texture = 12\<rparr>) \<and>
   map_option depth_texture (framebuffers exampleWorld 4) = Some 22 \<and>
   map_sum id trace
     (PerformCopy examplePlatform (copyStep (Some 3) (Some 4) GL_DEPTH_BUFFER_BIT) exampleWorld) =
   Inr [glCopyImageSubData
          (copyImageArgs 12 GL_RENDERBUFFER 0 0 0 0 12 GL_RENDERBUFFER 0 0 0 0 64 64 1)]"
proof -
  let ?step = "copyStep (Some 3) (Some 4) GL_DEPTH_BUFFER_BIT"
  have m: "copy_aspectMask ?step = GL_DEPTH_BUFFER_BIT" by (simp add: copyStep_def)
  have s: "deref (framebuffers exampleWorld) (copy_src ?step) =
             Inr (3, \<lparr>width = 320, height = 200, color_texture = 11, depth_texture = 12\<rparr>)"
    by (simp add: copyStep_def deref_def exampleWorld_def)
  have i: "?step\<lparr>copy_dst := Some 4\<rparr> = ?step" by (simp add: copyStep_def)
  have o: "map_option depth_texture (framebuffers exampleWorld 4) = Some 22"
    by (simp add: exampleWorld_def)
  have t: "trace exampleWorld = []" by (simp add: exampleWorld_def)
  have r: "rc_x (copy_srcRect ?step) = 0" "rc_y (copy_srcRect ?step) = 0"
    "rc_w (copy_srcRect ?step) = 64" "rc_h (copy_srcRect ?step) = 64"
    "off_x (copy_dstPos ?step) = 0" "off_y (copy_dstPos ?step) = 0"
    by (simp_all add: copyStep_def)
  have c: "CopyImageSubData examplePlatform args = [glCopyImageSubData args]" for args
    by (simp add: CopyImageSubData_def examplePlatform_def)
  from PerformCopy_depth_destination_is_source [OF m s, where plat = examplePlatform and d = "Some 4"]
  show ?thesis
    using m s o by (simp add: i t r c emit_def)
qed

text \<open>
  Claim C10. Whatever the aspect, \<open>PerformCopy\<close> does not depend on the destination
  pointer of the step, nor on any framebuffer record other than the one the source
  pointer designates: with other records replaced, removed or added, it makes the same
  calls. For the colour aspect the destination name of the region copy is the colour
  texture of the source framebuffer; for the depth aspect, its depth texture.
\<close>

theorem PerformCopy_never_reads_destination:
  "PerformCopy plat (step\<lparr>copy_dst := d\<rparr>) w = PerformCopy plat step w \<and>
   ((\<forall>a. copy_src step = Some a \<longrightarrow> fbs a = framebuffers w a) \<longrightarrow>
      PerformCopy plat step (w\<lparr>framebuffers := fbs\<rparr>) =
        map_sum id (\<lambda>w'. w'\<lparr>framebuffers := fbs\<rparr>) (PerformCopy plat step w)) \<and>
   (copy_aspectMask step = GL_COLOR_BUFFER_BIT \<and>
    deref (framebuffers w) (copy_src step) = Inr (a, srcFb) \<longrightarrow>
      PerformCopy plat step w =
        Inr (emit (CopyImageSubData plat
               (copyImageArgs
                  (color_texture srcFb) GL_TEXTURE_2D 0
                  (rc_x (copy_srcRect step)) (rc_y (copy_srcRect step)) 0
                  (color_texture srcFb) GL_TEXTURE_2D 0
                  (off_x (copy_dstPos step)) (off_y (copy_dstPos step)) 0
                  (rc_w (copy_srcRect step)) (rc_h (copy_srcRect step)) 1)) w)) \<and>
   (copy_aspectMask step = GL_DEPTH_BUFFER_BIT \<and>
    deref (framebuffers w) (copy_src step) = Inr (a, srcFb) \<longrightarrow>
      PerformCopy plat step w =
        Inr (emit (CopyImageSubData plat
               (copyImageArgs
                  (depth_texture srcFb) GL_RENDERBUFFER 0
                  (rc_x (copy_srcRect step)) (rc_y (copy_srcRect step)) 0
                  (depth_texture srcFb) GL_RENDERBUFFER 0
                  (off_x (copy_dstPos step)) (off_y (copy_dstPos step)) 0
                  (rc_w (copy_srcRect step)) (rc_h (copy_srcRect step)) 1)) w))"
  using PerformCopy_ignores_copy_dst PerformCopy_other_records
    PerformCopy_color_aspect PerformCopy_depth_aspect
  by blast

theorem PerformCopy_never_reads_destination_witness:
  "copy_aspectMask (copyStep (Some 3) (Some 4) GL_COLOR_BUFFER_BIT) = GL_COLOR_BUFFER_BIT \<and>
   copy_aspectMask (copyStep (Some 3) (Some 4) GL_DEPTH_BUFFER_BIT) = GL_DEPTH_BUFFER_BIT \<and>
   deref (framebuffers exampleWorld) (copy_src (copyStep (Some 3) (Some 4) GL_COLOR_BUFFER_BIT)) =
     Inr (3, \<lparr>width = 320, height = 200, color_texture = 11, depth_texture = 12\<rparr>) \<and>
   map_option color_texture (framebuffers exampleWorld 4) = Some 21 \<and>
   map_sum id trace
     (PerformCopy examplePlatform (copyStep (Some 3) (Some 4) GL_COLOR_BUFFER_BIT) exampleWorld) =
   Inr [glCopyImageSubData
          (copyImageArgs 11 GL_TEXTURE_2D 0 0 0 0 11 GL_TEXTURE_2D 0 0 0 0 64 64 1)] \<and>
   map_sum id trace
     (PerformCopy examplePlatform (copyStep (Some 3) (Some 4) GL_COLOR_BUFFER_BIT)
        (exampleWorld\<lparr>framebuffers := (framebuffers exampleWorld)(4 := None)\<rparr>)) =
   Inr [glCopyImageSubData
          (copyImageArgs 11 GL_TEXTURE_2D 0 0 0 0 11 GL_TEXTURE_2D 0 0 0 0 64 64 1)] \<and>
   map_sum id trace
     (PerformCopy examplePlatform (copyStep (Some 3) (Some 4) GL_DEPTH_BUFFER_BIT) exampleWorld) =
   Inr [glCopyImageSubData
          (copyImageArgs 12 GL_RENDERBUFFER 0 0 0 0 12 GL_RENDERBUFFER 0 0 0 0 64 64 1)]"
proof -
  let ?step = "copyStep (Some 3) (Some 4) GL_COLOR_BUFFER_BIT"
  let ?dstep = "copyStep (Some 3) (Some 4) GL_DEPTH_BUFFER_BIT"
  let ?fbs = "(framebuffers exampleWorld)(4 := None)"
  let ?fb = "\<lparr>width = 320, height = 200, color_texture = 11, depth_texture = 12\<rparr>"
  have m: "copy_aspectMask ?step = GL_COLOR_BUFFER_BIT"
    and dm: "copy_aspectMask ?dstep = GL_DEPTH_BUFFER_BIT"
    by (simp_all add: copyStep_def)
  have s: "deref (framebuffers exampleWorld) (copy_src ?step) = Inr (3, ?fb)"
    and ds: "deref (framebuffers exampleWorld) (copy_src ?dstep) = Inr (3, ?fb)"
    by (simp_all add: copyStep_def deref_def exampleWorld_def)
  have o: "map_option color_texture (framebuffers exampleWorld 4) = Some 21"
    by (simp add: exampleWorld_def)
  have t: "trace exampleWorld = []" by (simp add: exampleWorld_def)
  have r: "rc_x (copy_srcRect (copyStep p q k)) = 0" "rc_y (copy_srcRect (copyStep p q k)) = 0"
    "rc_w (copy_srcRect (copyStep p q k)) = 64" "rc_h (copy_srcRect (copyStep p q k)) = 64"
    "off_x (copy_dstPos (copyStep p q k)) = 0" "off_y (copy_dstPos (copyStep p q k)) = 0"
    for p q k
    by (simp_all add: copyStep_def)
  have c: "CopyImageSubData examplePlatform args = [glCopyImageSubData args]" for args
    by (simp add: CopyImageSubData_def examplePlatform_def)
  have agree: "\<forall>a. copy_src ?step = Some a \<longrightarrow> ?fbs a = framebuffers exampleWorld a"
    by (simp add: copyStep_def)
  note T = PerformCopy_never_reads_destination
    [where plat = examplePlatform and step = ?step and d = "Some 4" and w = exampleWorld
       and fbs = ?fbs and a = 3 and srcFb = ?fb]
  note D = PerformCopy_never_reads_destination
    [where plat = examplePlatform and step = ?dstep and d = "Some 4" and w = exampleWorld
       and fbs = ?fbs and a = 3 and srcFb = ?fb]
  from T m s have run: "PerformCopy examplePlatform ?step exampleWorld =
      Inr (emit [glCopyImageSubData
          (copyImageArgs 11 GL_TEXTURE_2D 0 0 0 0 11 GL_TEXTURE_2D 0 0 0 0 64 64 1)] exampleWorld)"
    by (simp add: r c)
  from D dm ds have drun: "PerformCopy examplePlatform ?dstep exampleWorld =
      Inr (emit [glCopyImageSubData
          (copyImageArgs 12 GL_RENDERBUFFER 0 0 0 0 12 GL_RENDERBUFFER 0 0 0 0 64 64 1)]
        exampleWorld)"
    by (simp add: r c)
  from T agree have "PerformCopy examplePlatform ?step (exampleWorld\<lparr>framebuffers := ?fbs\<rparr>) =
      map_sum id (\<lambda>w'. w'\<lparr>framebuffers := ?fbs\<rparr>) (PerformCopy examplePlatform ?step exampleWorld)"
    by blast
  with run drun m dm s o t show ?thesis by (simp add: emit_def)
qed

subsection \<open>The texture name cache\<close>

lemma AllocTextureName_nonempty:
  "nameCache w \<noteq> [] \<Longrightarrow>
   AllocTextureName drv w = (last (nameCache w), w\<lparr>nameCache := butlast (nameCache w)\<rparr>)"
  by (simp add: AllocTextureName_def)

lemma refillNameCache_eq:
  "refillNameCache drv w =
     w\<lparr>nameCache := map (freshName drv) [namesIssued w ..< namesIssued w + 16],
       trace := trace w @ [glGenTextures 16],
       namesIssued := namesIssued w + 16\<rparr>"
  by (simp add: refillNameCache_def genNames_def emit_def TEXCACHE_NAME_CACHE_SIZE_def)

lemma upt_16: "[k ..< k + 16] = [k ..< k + 15] @ [k + 15]"
proof -
  have "[k ..< Suc (k + 15)] = [k ..< k + 15] @ [k + 15]"
    by (rule upt_Suc_append) simp
  moreover have "Suc (k + 15) = k + 16" by simp
  ultimately show ?thesis by (simp only:)
qed

lemma AllocTextureName_empty:
  "nameCache w = [] \<Longrightarrow>
   AllocTextureName drv w =
     (freshName drv (namesIssued w + 15),
      w\<lparr>nameCache := map (freshName drv) [namesIssued w ..< namesIssued w + 15],
        trace := trace w @ [glGenTextures 16],
        namesIssued := namesIssued w + 16\<rparr>)"
proof -
  assume e: "nameCache w = []"
  show ?thesis
    unfolding AllocTextureName_def refillNameCache_eq
    using e by (simp add: upt_16)
qed

lemma AllocTextureNames_add:
  "AllocTextureNames drv (m + n) w =
     (let (xs, w1) = AllocTextureNames drv m w;
          (ys, w2) = AllocTextureNames drv n w1
      in (xs @ ys, w2))"
  by (induction m arbitrary: w) (simp_all add: split_def Let_def)

lemma AllocTextureNames_drain:
  "n \<le> length (nameCache w) \<Longrightarrow>
   AllocTextureNames drv n w =
     (take n (rev (nameCache w)),
      w\<lparr>nameCache := take (length (nameCache w) - n) (nameCache w)\<rparr>)"
proof (induction n arbitrary: w)
  case 0
  then show ?case by simp
next
  case (Suc n)
  let ?c = "nameCache w"
  from Suc.prems have ne: "?c \<noteq> []" by auto
  let ?w1 = "w\<lparr>nameCache := butlast ?c\<rparr>"
  have step: "AllocTextureName drv w = (last ?c, ?w1)"
    using ne by (rule AllocTextureName_nonempty)
  have le: "n \<le> length (nameCache ?w1)" using Suc.prems by simp
  have "rev (butlast ?c @ [last ?c]) = last ?c # rev (butlast ?c)" by simp
  then have r: "rev ?c = last ?c # rev (butlast ?c)"
    using ne by simp
  have t: "take (length ?c - Suc n) (butlast ?c) = take (length ?c - Suc n) ?c"
    by (simp add: butlast_conv_take)
  have h: "last ?c # take n (rev (butlast ?c)) = take (Suc n) (rev ?c)"
    by (subst r) simp
  show ?case
    using Suc.IH [OF le] step h t by simp
qed

lemma AllocTextureName_mset:
  assumes "AllocTextureName drv w = (name, w')"
  shows "namesIssued w \<le> namesIssued w' \<and>
         mset (name # nameCache w') =
           mset (nameCache w) + mset (map (freshName drv) [namesIssued w ..< namesIssued w'])"
proof (cases "nameCache w = []")
  case True
  let ?k = "namesIssued w"
  from assms True have n: "name = freshName drv (?k + 15)"
    and w: "w' = w\<lparr>nameCache := map (freshName drv) [?k ..< ?k + 15],
                    trace := trace w @ [glGenTextures 16], namesIssued := ?k + 16\<rparr>"
    by (simp_all add: AllocTextureName_empty)
  have "mset (name # nameCache w') = mset (map (freshName drv) [?k ..< ?k + 15] @ [name])"
    using w by simp
  also have "map (freshName drv) [?k ..< ?k + 15] @ [name] = map (freshName drv) [?k ..< ?k + 16]"
    by (simp only: upt_16 map_append list.map n)
  finally have "mset (name # nameCache w') = mset (map (freshName drv) [?k ..< ?k + 16])" .
  moreover have "namesIssued w' = ?k + 16" using w by simp
  ultimately show ?thesis using True by simp
next
  case False
  then have "butlast (nameCache w) @ [last (nameCache w)] = nameCache w" by simp
  then have "mset (nameCache w) = mset (butlast (nameCache w) @ [last (nameCache w)])" by simp
  then have "mset (last (nameCache w) # butlast (nameCache w)) = mset (nameCache w)"
    by simp
  with assms False show ?thesis
    by (auto simp: AllocTextureName_nonempty)
qed

lemma AllocTextureNames_mset:
  "AllocTextureNames drv n w = (names, w') \<Longrightarrow>
   namesIssued w \<le> namesIssued w' \<and>
   mset (names @ nameCache w') =
     mset (nameCache w) + mset (map (freshName drv) [namesIssued w ..< namesIssued w'])"
proof (induction n arbitrary: w names w')
  case 0
  then show ?case by simp
next
  case (Suc n)
  obtain name w1 where s1: "AllocTextureName drv w = (name, w1)" by (cases "AllocTextureName drv w")
  obtain rest w2 where s2: "AllocTextureNames drv n w1 = (rest, w2)"
    by (cases "AllocTextureNames drv n w1")
  from Suc.prems s1 s2 have eq: "names = name # rest" "w' = w2" by simp_all
  note a = AllocTextureName_mset [OF s1]
  note b = Suc.IH [OF s2]
  have le: "namesIssued w \<le> namesIssued w1" "namesIssued w1 \<le> namesIssued w2"
    using a b by simp_all
  have up: "[namesIssued w ..< namesIssued w2] =
            [namesIssued w ..< namesIssued w1] @ [namesIssued w1 ..< namesIssued w2]"
    using le by (metis le_Suc_ex upt_add_eq_append)
  have "mset (names @ nameCache w') = add_mset name (mset (rest @ nameCache w2))"
    using eq by simp
  also have "\<dots> = add_mset name (mset (nameCache w1)) +
                   mset (map (freshName drv) [namesIssued w1 ..< namesIssued w2])"
    using b by simp
  also have "add_mset name (mset (nameCache w1)) =
             mset (nameCache w) + mset (map (freshName drv) [namesIssued w ..< namesIssued w1])"
    using a by simp
  finally show ?case using le eq by (simp add: up)
qed

lemma AllocTextureNames_17:
  assumes e: "nameCache w = []"
  shows "AllocTextureNames drv 17 w =
           (rev (map (freshName drv) [namesIssued w ..< namesIssued w + 16]) @
              [freshName drv (namesIssued w + 31)],
            w\<lparr>nameCache := map (freshName drv) [namesIssued w + 16 ..< namesIssued w + 31],
              trace := trace w @ [glGenTextures 16, glGenTextures 16],
              namesIssued := namesIssued w + 32\<rparr>)"
proof -
  let ?k = "namesIssued w"
  let ?f = "freshName drv"
  let ?w1 = "w\<lparr>nameCache := map ?f [?k ..< ?k + 15],
               trace := trace w @ [glGenTextures 16], namesIssued := ?k + 16\<rparr>"
  let ?w2 = "?w1\<lparr>nameCache := []\<rparr>"
  have one: "AllocTextureNames drv 1 v = (let (x, v1) = AllocTextureName drv v in ([x], v1))" for v
    by (simp add: split_def)
  have s1: "AllocTextureNames drv 1 w = ([?f (?k + 15)], ?w1)"
    using e by (simp add: one AllocTextureName_empty)
  have s2: "AllocTextureNames drv 15 ?w1 = (rev (map ?f [?k ..< ?k + 15]), ?w2)"
    using AllocTextureNames_drain [of 15 ?w1 drv] by simp
  have s3: "AllocTextureNames drv 1 ?w2 =
              ([?f (?k + 31)],
               w\<lparr>nameCache := map ?f [?k + 16 ..< ?k + 31],
                 trace := trace w @ [glGenTextures 16, glGenTextures 16],
                 namesIssued := ?k + 32\<rparr>)"
    by (simp add: one AllocTextureName_empty add.assoc)
  have "AllocTextureNames drv (1 + (15 + 1)) w =
          ([?f (?k + 15)] @ rev (map ?f [?k ..< ?k + 15]) @ [?f (?k + 31)],
           w\<lparr>nameCache := map ?f [?k + 16 ..< ?k + 31],
             trace := trace w @ [glGenTextures 16, glGenTextures 16],
             namesIssued := ?k + 32\<rparr>)"
    by (simp only: AllocTextureNames_add [of drv 1] AllocTextureNames_add [of drv 15] s1 s2 s3
        Let_def split_conv)
  moreover have "[?f (?k + 15)] @ rev (map ?f [?k ..< ?k + 15]) =
                 rev (map ?f [?k ..< ?k + 16])"
    by (simp add: upt_16)
  ultimately show ?thesis by simp
qed

text \<open>
  Claim C9. With an empty cache, \<open>AllocTextureName\<close> asks the driver once for 16
  names, returns the last of them and keeps the other 15; with a cache that is not
  empty it makes no call and pops the back. Seventeen allocations from an empty cache
  make exactly two \<open>glGenTextures\<close> calls. After any number \<open>n\<close> of allocations, the
  names returned together with the names left in the cache are, counted with
  multiplicity, the names that were in the cache before together with the names the
  driver handed out meanwhile: every name leaves the cache once. So if those names are
  distinct, no name is returned twice.
\<close>

theorem AllocTextureName_pool:
  "(nameCache w = [] \<longrightarrow>
      AllocTextureName drv w =
        (freshName drv (namesIssued w + 15),
         w\<lparr>nameCache := map (freshName drv) [namesIssued w ..< namesIssued w + 15],
           trace := trace w @ [glGenTextures 16],
           namesIssued := namesIssued w + 16\<rparr>)) \<and>
   (nameCache w \<noteq> [] \<longrightarrow>
      AllocTextureName drv w = (last (nameCache w), w\<lparr>nameCache := butlast (nameCache w)\<rparr>)) \<and>
   (nameCache w = [] \<longrightarrow>
      trace (snd (AllocTextureNames drv 17 w)) =
        trace w @ [glGenTextures 16, glGenTextures 16] \<and>
      namesIssued (snd (AllocTextureNames drv 17 w)) = namesIssued w + 32) \<and>
   mset (fst (AllocTextureNames drv n w) @ nameCache (snd (AllocTextureNames drv n w))) =
     mset (nameCache w) +
     mset (map (freshName drv)
            [namesIssued w ..< namesIssued (snd (AllocTextureNames drv n w))]) \<and>
   (distinct (nameCache w @
              map (freshName drv)
                [namesIssued w ..< namesIssued (snd (AllocTextureNames drv n w))]) \<longrightarrow>
      distinct (fst (AllocTextureNames drv n w)))"
proof -
  obtain names w' where r: "AllocTextureNames drv n w = (names, w')"
    by (cases "AllocTextureNames drv n w")
  note m = AllocTextureNames_mset [OF r]
  let ?fresh = "map (freshName drv) [namesIssued w ..< namesIssued w']"
  have ms: "mset (names @ nameCache w') = mset (nameCache w @ ?fresh)"
    using m by simp
  have d: "distinct names" if "distinct (nameCache w @ ?fresh)"
  proof -
    from ms that have "distinct (names @ nameCache w')"
      by (metis mset_eq_imp_distinct_iff)
    then show ?thesis by simp
  qed
  show ?thesis
    using m d r by (simp add: AllocTextureName_empty AllocTextureName_nonempty AllocTextureNames_17)
qed

theorem AllocTextureName_pool_witness:
  "nameCache exampleWorld = [] \<and>
   distinct (nameCache exampleWorld @ map (freshName exampleDriver) [0 ..< 32]) \<and>
   trace (snd (AllocTextureNames exampleDriver 17 exampleWorld)) =
     [glGenTextures 16, glGenTextures 16] \<and>
   distinct (fst (AllocTextureNames exampleDriver 17 exampleWorld)) \<and>
   nameCache (exampleWorld\<lparr>nameCache := [5, 6]\<rparr>) \<noteq> [] \<and>
   AllocTextureName exampleDriver (exampleWorld\<lparr>nameCache := [5, 6]\<rparr>) =
     (6, exampleWorld\<lparr>nameCache := [5]\<rparr>)"
proof -
  have e: "nameCache exampleWorld = []" and k: "namesIssued exampleWorld = 0"
    and t: "trace exampleWorld = []"
    by (simp_all add: exampleWorld_def)
  have f: "freshName exampleDriver = (\<lambda>k. word_of_nat (k + 1))"
    by (simp add: exampleDriver_def)
  have d: "distinct (nameCache exampleWorld @ map (freshName exampleDriver) [0 ..< 32])"
    unfolding e f by (simp add: upt_rec)
  note T = AllocTextureName_pool [of exampleWorld exampleDriver 17]
  from T e k have ni: "namesIssued (snd (AllocTextureNames exampleDriver 17 exampleWorld)) = 32"
    by simp
  from T d ni k have "distinct (fst (AllocTextureNames exampleDriver 17 exampleWorld))"
    by simp
  moreover
  from AllocTextureName_pool [of "exampleWorld\<lparr>nameCache := [5, 6]\<rparr>" exampleDriver 0]
  have "AllocTextureName exampleDriver (exampleWorld\<lparr>nameCache := [5, 6]\<rparr>) =
          (6, exampleWorld\<lparr>nameCache := [5]\<rparr>)"
    by simp
  ultimately show ?thesis using T e d t by simp
qed

end
